theory Spec2Isabelle
  imports Complex_Main "HOL-Library.Char_ord" "HOL-Library.List_Lexorder" "HOL-Library.Multiset"
begin

section \<open>Chunked group-by reductions: a model of \<^verbatim>\<open>dask_groupby/core.py\<close>\<close>

text \<open>
  The functions of \<^verbatim>\<open>core.py\<close> are translated one by one. A Python exception is a
  value \<open>Inl e\<close> of the sum type \<open>error + 'a\<close>; a normal return is \<open>Inr v\<close>. Names follow
  the source, without the underscore some of them begin or end with
  (\<^verbatim>\<open>_get_optimal_chunks_for_groups\<close> is \<open>get_optimal_chunks_for_groups\<close>, \<^verbatim>\<open>reindex_\<close>
  is \<open>reindex\<close>).

  The library calls the source makes (numpy, pandas, numpy\_groupies, toolz) are modelled by
  small list functions with the prefix of their library (\<open>np_\<close>, \<open>pd_\<close>, \<open>npg_\<close>,
  \<open>tlz_\<close>), each with the behaviour its documentation gives.
\<close>

subsection \<open>Exceptions\<close>

datatype error =
    ValueError string
  | IndexError
  | TypeError
  | AssertionError
  | NotImplementedError
  | UnboundLocalError

text \<open>Sequencing: the first exception ends the computation.\<close>

definition bind_err :: "error + 'a \<Rightarrow> ('a \<Rightarrow> error + 'b) \<Rightarrow> error + 'b" where
  "bind_err m f = (case m of Inl e \<Rightarrow> Inl e | Inr v \<Rightarrow> f v)"

subsection \<open>numpy helpers on one-dimensional data\<close>

text \<open>\<^verbatim>\<open>np.cumsum\<close>: running totals.\<close>

fun cumsum_from :: "int \<Rightarrow> int list \<Rightarrow> int list" where
  "cumsum_from acc [] = []"
| "cumsum_from acc (x # xs) = (acc + x) # cumsum_from (acc + x) xs"

definition np_cumsum :: "int list \<Rightarrow> int list" where
  "np_cumsum xs = cumsum_from 0 xs"

text \<open>\<^verbatim>\<open>np.diff\<close>: differences of neighbours; one element shorter than the input.\<close>

fun np_diff :: "int list \<Rightarrow> int list" where
  "np_diff (x # y # ys) = (y - x) # np_diff (y # ys)"
| "np_diff _ = []"

text \<open>
  \<^verbatim>\<open>np.median(chunks).astype(int)\<close> on block sizes: the middle element of the sorted
  sizes, or the mean of the two middle ones, truncated. (For no sizes at all numpy gives
  NaN; the model gives 0. A dask array has at least one block along each axis, and
  \<open>rechunk_for_cohorts\<close> raises on an axis of length 0 whatever the nominal size is.)
\<close>

definition np_median_int :: "nat list \<Rightarrow> int" where
  "np_median_int cs =
     (let s = sort cs; n = length s in
      if n = 0 then 0
      else if odd n then int (s ! (n div 2))
      else (int (s ! (n div 2 - 1)) + int (s ! (n div 2))) div 2)"

subsection \<open>The boundary-forcing rechunk planner: \<^verbatim>\<open>rechunk_for_cohorts\<close>\<close>

text \<open>
  \<^verbatim>\<open>np.nonzero(isbreak[idx:])[0]\<close>: the offsets, counted from \<open>idx\<close>, of the forcing
  labels at or after \<open>idx\<close>.
\<close>

definition next_break_offsets :: "bool list \<Rightarrow> nat \<Rightarrow> nat list" where
  "next_break_offsets isbreak idx =
     filter (\<lambda>k. isbreak ! (idx + k)) [0..<length isbreak - idx]"

text \<open>\<^verbatim>\<open>ndarray.any()\<close> on integers: some element is non-zero.\<close>

definition np_any_nonzero :: "nat list \<Rightarrow> bool" where
  "np_any_nonzero xs = (\<exists>x \<in> set xs. x \<noteq> 0)"

text \<open>
  One iteration of the loop \<^verbatim>\<open>for idx, lab in enumerate(labels)\<close>; the loop state is
  \<open>(divisions, counter)\<close>.
\<close>

definition cohorts_step ::
  "'l list \<Rightarrow> 'l list \<Rightarrow> int \<Rightarrow> int list \<Rightarrow> bool list \<Rightarrow> nat \<Rightarrow> int list \<times> int \<Rightarrow> int list \<times> int"
where
  "cohorts_step labels force_new_chunk_at chunksize oldbreaks isbreak idx st =
     (case st of (divisions, counter) \<Rightarrow>
        if labels ! idx \<in> set force_new_chunk_at then (divisions @ [int idx], 1)
        else
          let next_break = next_break_offsets isbreak idx;
              next_break_is_close =
                (if np_any_nonzero next_break then int (hd next_break) \<le> chunksize div 2
                 else False)
          in if int idx \<in> set oldbreaks \<or> (counter \<ge> chunksize \<and> \<not> next_break_is_close)
             then (divisions @ [int idx], 1)
             else (divisions, counter + 1))"

definition cohorts_divisions ::
  "'l list \<Rightarrow> 'l list \<Rightarrow> int \<Rightarrow> int list \<Rightarrow> bool list \<Rightarrow> int list"
where
  "cohorts_divisions labels force_new_chunk_at chunksize oldbreaks isbreak =
     fst (fold (cohorts_step labels force_new_chunk_at chunksize oldbreaks isbreak)
            [0..<length labels] ([], 1))"

text \<open>
  \<open>rechunk_for_cohorts oldchunks labels force_new_chunk_at chunksize\<close>, where
  \<open>oldchunks\<close> is \<^verbatim>\<open>array.chunks[axis]\<close> (so \<^verbatim>\<open>array.shape[axis]\<close> is its sum) and
  \<open>force_new_chunk_at\<close> is already a sequence (\<^verbatim>\<open>_atleast_1d\<close>). The result is the
  tuple of block sizes along \<^verbatim>\<open>axis\<close> of the returned array: \<^verbatim>\<open>newchunks\<close>, whether
  the source returns \<^verbatim>\<open>array\<close> itself (its blocks already are \<^verbatim>\<open>newchunks\<close>) or
  \<^verbatim>\<open>array.rechunk({axis: newchunks})\<close>.
\<close>

definition rechunk_for_cohorts ::
  "nat list \<Rightarrow> 'l list \<Rightarrow> 'l list \<Rightarrow> int option \<Rightarrow> error + int list"
where
  "rechunk_for_cohorts oldchunks labels force_new_chunk_at chunksize_arg =
     (let chunksize = (case chunksize_arg of None \<Rightarrow> np_median_int oldchunks | Some c \<Rightarrow> c) in
      if length labels \<noteq> sum_list oldchunks
      then Inl (ValueError ''labels must be equal to array.shape[axis].'')
      else
        let oldbreaks = 0 # np_cumsum (map int oldchunks);
            isbreak = map (\<lambda>lab. lab \<in> set force_new_chunk_at) labels
        in if \<not> (\<exists>b \<in> set isbreak. b)
           then Inl (ValueError
             ''One or more labels in force_new_chunk_at not present in labels.'')
           else
             let divisions =
                   cohorts_divisions labels force_new_chunk_at chunksize oldbreaks isbreak
                   @ [int (length labels)];
                 newchunks = np_diff divisions
             in if sum_list newchunks \<noteq> int (length labels) then Inl AssertionError
                else Inr newchunks)"

subsection \<open>Arrays\<close>

text \<open>
  A numpy array is its shape and its elements in row-major (C) order, as
  \<^verbatim>\<open>ndarray.shape\<close> and \<^verbatim>\<open>ndarray.ravel()\<close> give them. A well-formed array has
  \<open>length (flat a) = prod_list (shape a)\<close>.
\<close>

record 'a ndarray =
  shape :: "nat list"
  flat :: "'a list"

definition array1 :: "'a list \<Rightarrow> 'a ndarray" where
  "array1 xs = \<lparr>shape = [length xs], flat = xs\<rparr>"

definition ndim :: "'a ndarray \<Rightarrow> nat" where
  "ndim a = length (shape a)"

definition wf_array :: "'a ndarray \<Rightarrow> bool" where
  "wf_array a = (length (flat a) = prod_list (shape a))"

text \<open>
  \<^verbatim>\<open>xs[i]\<close> for one integer: an index from \<open>-len\<close> up to \<open>-1\<close> counts from the
  end, and any index outside \<open>-len .. len - 1\<close> raises.
\<close>

definition np_getitem :: "'a list \<Rightarrow> int \<Rightarrow> error + 'a" where
  "np_getitem xs i =
     (if - int (length xs) \<le> i \<and> i < 0 then Inr (xs ! nat (int (length xs) + i))
      else if 0 \<le> i \<and> i < int (length xs) then Inr (xs ! nat i)
      else Inl IndexError)"

text \<open>\<^verbatim>\<open>xs[idx]\<close> for an integer index array \<open>idx\<close>; the first bad index raises.\<close>

fun np_take :: "'a list \<Rightarrow> int list \<Rightarrow> error + 'a list" where
  "np_take xs [] = Inr []"
| "np_take xs (i # is) =
     bind_err (np_getitem xs i) (\<lambda>v. bind_err (np_take xs is) (\<lambda>vs. Inr (v # vs)))"

text \<open>\<^verbatim>\<open>np.unique\<close> on values without NaN: the distinct values, ascending.\<close>

definition np_unique :: "('a::linorder) list \<Rightarrow> 'a list" where
  "np_unique xs = sort (remdups xs)"

subsection \<open>\<^verbatim>\<open>numpy_groupies.aggregate\<close>\<close>

text \<open>
  \<^verbatim>\<open>aggregate(group_idx, a, axis=-1, func=..., size=..., fill_value=...)\<close> with a
  one-dimensional \<open>group_idx\<close> along the last axis of \<open>a\<close>. For every row of \<open>a\<close> (one
  per index of the leading axes) and every group number \<open>g < size\<close>, the output holds
  \<open>func\<close> of the members of group \<open>g\<close> in that row, in array order, or \<open>fill_value\<close> when
  the group has no member. A kernel \<open>func\<close> receives each member as the pair of its flat
  position in \<open>a\<close> and its value, so that the positional kernels (argmax, first, last)
  are kernels too. \<^verbatim>\<open>size=None\<close> means one more than the largest group number.
  The library refuses negative group numbers and, when \<^verbatim>\<open>size\<close> is given, group
  numbers beyond it.
\<close>

definition npg_members :: "int list \<Rightarrow> 'a list \<Rightarrow> nat \<Rightarrow> nat \<Rightarrow> (nat \<times> 'a) list" where
  "npg_members group_idx xs off g =
     map (\<lambda>i. (off + i, xs ! (off + i)))
       (filter (\<lambda>i. group_idx ! i = int g) [0..<length group_idx])"

definition npg_slot ::
  "int list \<Rightarrow> 'a list \<Rightarrow> ((nat \<times> 'a) list \<Rightarrow> 'b) \<Rightarrow> 'b \<Rightarrow> nat \<Rightarrow> nat \<Rightarrow> 'b"
where
  "npg_slot group_idx xs func fill_value off g =
     (let members = npg_members group_idx xs off g in
      if members = [] then fill_value else func members)"

definition npg_aggregate ::
  "int list \<Rightarrow> 'a ndarray \<Rightarrow> ((nat \<times> 'a) list \<Rightarrow> 'b) \<Rightarrow> nat option \<Rightarrow> 'b
     \<Rightarrow> error + 'b ndarray"
where
  "npg_aggregate group_idx a func size_arg fill_value =
     (if shape a = [] \<or> last (shape a) \<noteq> length group_idx
      then Inl (ValueError ''a.shape[axis] does not match length of group_idx.'')
      else if \<exists>g \<in> set group_idx. g < 0
      then Inl (ValueError ''negative indices not supported'')
      else if size_arg = None \<and> group_idx = []
      then Inl (ValueError ''zero-size array to reduction operation maximum'')
      else
        let sz = (case size_arg of None \<Rightarrow> nat (Max (set group_idx)) + 1 | Some s \<Rightarrow> s) in
        if \<exists>g \<in> set group_idx. g > int sz - 1
        then Inl (ValueError ''one or more indices are too large for size'')
        else
          let n = length group_idx in
          Inr \<lparr>shape = butlast (shape a) @ [sz],
               flat = concat (map (\<lambda>r. map (npg_slot group_idx (flat a) func fill_value (r * n))
                                          [0..<sz])
                                [0..<prod_list (butlast (shape a))])\<rparr>)"

text \<open>The kernels \<^verbatim>\<open>"first"\<close> and \<^verbatim>\<open>"last"\<close>: the value of the first (last) member.\<close>

definition npg_first :: "(nat \<times> 'a) list \<Rightarrow> 'a" where
  "npg_first members = snd (hd members)"

definition npg_last :: "(nat \<times> 'a) list \<Rightarrow> 'a" where
  "npg_last members = snd (last members)"

subsection \<open>The group-boundary-snapping rechunk planner: \<^verbatim>\<open>_get_optimal_chunks_for_groups\<close>\<close>

text \<open>
  One iteration of \<^verbatim>\<open>for c, f, l in zip(chunkidx, firstidx, lastidx)\<close>; the loop state
  is the list \<open>newchunkidx\<close>, which starts as \<open>[0]\<close> and only grows.
\<close>

definition optimal_step :: "int \<times> int \<times> int \<Rightarrow> int list \<Rightarrow> int list" where
  "optimal_step cfl newchunkidx =
     (case cfl of (c, f, l) \<Rightarrow>
        let df = \<bar>c - f\<bar>; dl = \<bar>c - l\<bar> in
        if c = 0 \<or> last newchunkidx > l then newchunkidx
        else if df < dl \<and> f > last newchunkidx then newchunkidx @ [f]
        else newchunkidx @ [l + 1])"

text \<open>
  \<open>labels\<close> are integer group codes (\<open>rechunk_for_blockwise\<close> factorizes first). Both
  index tables come from \<^verbatim>\<open>aggregate(labels, np.arange(len(labels)), func=...)\<close> with
  the library's default \<^verbatim>\<open>fill_value=0\<close>.
\<close>

definition get_optimal_chunks_for_groups :: "nat list \<Rightarrow> int list \<Rightarrow> error + int list" where
  "get_optimal_chunks_for_groups chunks labels =
     (let chunkidx = map (\<lambda>c. c - 1) (np_cumsum (map int chunks));
          arange = array1 (map int [0..<length labels]) in
      bind_err (np_take labels chunkidx) (\<lambda>at_bounds.
      let labels_at_chunk_bounds = np_unique at_bounds in
      bind_err (npg_aggregate labels arange npg_last None 0) (\<lambda>last_indexes.
      bind_err (np_take (flat last_indexes) labels_at_chunk_bounds) (\<lambda>lastidx.
      if length chunkidx = length lastidx \<and> chunkidx = lastidx then Inr (map int chunks)
      else
        bind_err (npg_aggregate labels arange npg_first None 0) (\<lambda>first_indexes.
        bind_err (np_take (flat first_indexes) labels_at_chunk_bounds) (\<lambda>firstidx.
        let looped = fold optimal_step (zip chunkidx (zip firstidx lastidx)) [0] in
        if chunkidx = [] then Inl IndexError
        else
          let newchunkidx =
                (if last looped \<noteq> last chunkidx + 1 then looped @ [last chunkidx + 1]
                 else looped);
              newchunks = np_diff newchunkidx
          in if sum_list newchunks \<noteq> sum_list (map int chunks) then Inl AssertionError
             else Inr newchunks))))))"

subsection \<open>Labels that may be missing\<close>

text \<open>
  A grouping label is \<open>Some v\<close>, or \<open>None\<close> for NaN, the value the source's \<^verbatim>\<open>isnull\<close>
  check and \<^verbatim>\<open>pd.factorize\<close> treat as missing. numpy's \<^verbatim>\<open>==\<close> never holds for NaN.
  \<^verbatim>\<open>np.unique\<close> (numpy 1.21 and later) returns the distinct values in ascending order
  and, when NaN occurs, one NaN at the end.
\<close>

definition np_eq :: "'l option \<Rightarrow> 'l option \<Rightarrow> bool" where
  "np_eq a b = (a \<noteq> None \<and> a = b)"

definition present :: "'l option list \<Rightarrow> 'l list" where
  "present xs = map the (filter (\<lambda>x. x \<noteq> None) xs)"

definition np_unique_nan :: "('l::linorder) option list \<Rightarrow> 'l option list" where
  "np_unique_nan xs =
     map Some (np_unique (present xs)) @ (if None \<in> set xs then [None] else [])"

subsection \<open>The cohort analyzer: \<^verbatim>\<open>find_group_cohorts\<close>\<close>

text \<open>\<^verbatim>\<open>np.repeat(np.arange(len(chunks)), chunks)\<close>: the block number of every position.\<close>

definition np_repeat_arange :: "nat list \<Rightarrow> nat list" where
  "np_repeat_arange chunks = concat (map (\<lambda>i. replicate (chunks ! i) i) [0..<length chunks])"

text \<open>\<^verbatim>\<open>xs[msk]\<close> for a boolean array \<open>msk\<close>, which must be as long as \<open>xs\<close>.\<close>

definition np_mask_select :: "'a list \<Rightarrow> bool list \<Rightarrow> error + 'a list" where
  "np_mask_select xs msk =
     (if length msk \<noteq> length xs then Inl IndexError
      else Inr (map fst (filter snd (zip xs msk))))"

text \<open>A comprehension whose body may raise: the first exception ends it.\<close>

fun map_err :: "('a \<Rightarrow> error + 'b) \<Rightarrow> 'a list \<Rightarrow> error + 'b list" where
  "map_err f [] = Inr []"
| "map_err f (x # xs) = bind_err (f x) (\<lambda>y. bind_err (map_err f xs) (\<lambda>ys. Inr (y # ys)))"

text \<open>
  \<^verbatim>\<open>toolz.groupby(key, seq)\<close>: a dictionary from each key to the list of the elements
  with that key, in the order of \<open>seq\<close>. A Python dictionary keeps its keys in order of
  insertion, so it is an association list here.
\<close>

fun groupby_add :: "'k \<Rightarrow> 'a \<Rightarrow> ('k \<times> 'a list) list \<Rightarrow> ('k \<times> 'a list) list" where
  "groupby_add k x [] = [(k, [x])]"
| "groupby_add k x ((k', vs) # d) =
     (if k = k' then (k', vs @ [x]) # d else (k', vs) # groupby_add k x d)"

definition tlz_groupby :: "('a \<Rightarrow> 'k) \<Rightarrow> 'a list \<Rightarrow> ('k \<times> 'a list) list" where
  "tlz_groupby key seq = fold (\<lambda>x d. groupby_add (key x) x d) seq []"

text \<open>
  The merge pass (\<^verbatim>\<open>merge=True\<close>). A key is what \<^verbatim>\<open>label_chunks.get\<close> returned: the
  tuple of block numbers of a label (\<open>Some\<close>; \<open>None\<close> would be a label that is not in the
  dictionary, which cannot happen since only its own keys are looked up).
\<close>

definition key_set :: "nat list option \<Rightarrow> nat set" where
  "key_set k = (case k of None \<Rightarrow> {} | Some t \<Rightarrow> set t)"

definition merge_inner ::
  "nat list option \<Rightarrow> nat list option \<times> 'l list \<Rightarrow> 'l list \<times> nat list option list
     \<Rightarrow> 'l list \<times> nat list option list"
where
  "merge_inner k1 item st =
     (case item of (k2, v2) \<Rightarrow> case st of (cohort, merged_keys) \<Rightarrow>
        if k2 \<in> set merged_keys then (cohort, merged_keys)
        else if key_set k2 \<subseteq> key_set k1 then (cohort @ v2, merged_keys @ [k2])
        else (cohort, merged_keys))"

fun merge_outer ::
  "(nat list option \<times> 'l list) list
     \<Rightarrow> (nat list option \<times> 'l list) list \<times> nat list option list
     \<Rightarrow> (nat list option \<times> 'l list) list \<times> nat list option list"
where
  "merge_outer [] st = st"
| "merge_outer ((k1, v1) # rest) (merged_cohorts, merged_keys) =
     (if k1 \<in> set merged_keys then merge_outer rest (merged_cohorts, merged_keys)
      else
        let r = fold (merge_inner k1) rest (v1, merged_keys) in
        merge_outer rest (merged_cohorts @ [(k1, fst r)], snd r))"

definition find_group_cohorts ::
  "('l::linorder) option list \<Rightarrow> nat list \<Rightarrow> bool \<Rightarrow> error + 'l option list list"
where
  "find_group_cohorts labels chunks merge =
     (let which_chunk = np_repeat_arange chunks in
      bind_err
        (map_err (\<lambda>lab. bind_err (np_mask_select which_chunk (map (\<lambda>l. np_eq l lab) labels))
                          (\<lambda>sel. Inr (lab, np_unique sel)))
           (np_unique_nan labels))
        (\<lambda>label_chunks.
           let chunks_cohorts = tlz_groupby (map_of label_chunks) (map fst label_chunks) in
           if merge then Inr (map snd (fst (merge_outer chunks_cohorts ([], []))))
           else Inr (map snd chunks_cohorts)))"

subsection \<open>Indexing n-dimensional arrays\<close>

text \<open>An index \<open>i\<close> into an axis of length \<open>n\<close>: valid from \<open>-n\<close> to \<open>n - 1\<close>.\<close>

definition index_ok :: "nat \<Rightarrow> int \<Rightarrow> bool" where
  "index_ok n i = (- int n \<le> i \<and> i < int n)"

definition resolve_index :: "nat \<Rightarrow> int \<Rightarrow> nat" where
  "resolve_index n i = nat (if i < 0 then int n + i else i)"

text \<open>
  \<^verbatim>\<open>a[..., idx]\<close>: the elements at the positions \<open>idx\<close> of the last axis, for every row.
  numpy checks the indices against the axis even when the array has no row.
\<close>

definition take_last :: "'a ndarray \<Rightarrow> int list \<Rightarrow> error + 'a ndarray" where
  "take_last a idx =
     (if shape a = [] then Inl IndexError
      else
        let n = last (shape a) in
        if \<exists>i \<in> set idx. \<not> index_ok n i then Inl IndexError
        else Inr \<lparr>shape = butlast (shape a) @ [length idx],
                  flat = concat (map (\<lambda>r. map (\<lambda>i. flat a ! (r * n + resolve_index n i)) idx)
                                   [0..<prod_list (butlast (shape a))])\<rparr>)"

text \<open>\<^verbatim>\<open>a[idx, ...]\<close>: the sub-arrays at the positions \<open>idx\<close> of the first axis.\<close>

definition take_axis0 :: "'a ndarray \<Rightarrow> int list \<Rightarrow> error + 'a ndarray" where
  "take_axis0 a idx =
     (if shape a = [] then Inl IndexError
      else
        let n = hd (shape a); bs = prod_list (tl (shape a)) in
        if \<exists>i \<in> set idx. \<not> index_ok n i then Inl IndexError
        else Inr \<lparr>shape = length idx # tl (shape a),
                  flat = concat (map (\<lambda>i. take bs (drop (resolve_index n i * bs) (flat a))) idx)\<rparr>)"

text \<open>
  \<^verbatim>\<open>a[..., msk] = v\<close> and \<^verbatim>\<open>a[msk, ...] = v\<close> for a boolean array \<open>msk\<close> as long as the
  axis: every element whose position on that axis is marked becomes \<open>v\<close>.
\<close>

definition assign_last :: "'a ndarray \<Rightarrow> bool list \<Rightarrow> 'a \<Rightarrow> 'a ndarray" where
  "assign_last a msk v =
     a\<lparr>flat := map (\<lambda>p. if msk ! (p mod length msk) then v else flat a ! p)
                  [0..<length (flat a)]\<rparr>"

definition assign_axis0 :: "'a ndarray \<Rightarrow> bool list \<Rightarrow> 'a \<Rightarrow> 'a ndarray" where
  "assign_axis0 a msk v =
     a\<lparr>flat := map (\<lambda>p. if msk ! (p div prod_list (tl (shape a))) then v else flat a ! p)
                  [0..<length (flat a)]\<rparr>"

text \<open>\<^verbatim>\<open>a[..., :-1]\<close>: every row without its last element.\<close>

definition drop_last_slot :: "'a ndarray \<Rightarrow> 'a ndarray" where
  "drop_last_slot a =
     (let n = last (shape a) in
      \<lparr>shape = butlast (shape a) @ [n - 1],
       flat = concat (map (\<lambda>r. take (n - 1) (drop (r * n) (flat a)))
                        [0..<prod_list (butlast (shape a))])\<rparr>)"

text \<open>\<^verbatim>\<open>a.reshape(newshape)\<close>: the same elements; the sizes must agree.\<close>

definition np_reshape :: "'a ndarray \<Rightarrow> nat list \<Rightarrow> error + 'a ndarray" where
  "np_reshape a newshape =
     (if prod_list newshape = length (flat a) then Inr \<lparr>shape = newshape, flat = flat a\<rparr>
      else Inl (ValueError ''cannot reshape array''))"

text \<open>
  \<^verbatim>\<open>np.full(shp, fill_value, dtype=array.dtype)\<close>. The fill value may be Python's
  \<^verbatim>\<open>None\<close>. What numpy makes of \<^verbatim>\<open>None\<close> depends on the element type: in a float array
  it becomes NaN, for an integer array the conversion raises \<^verbatim>\<open>TypeError\<close>. The
  parameter \<open>none_cast\<close> stands for the element type: \<open>Some nan\<close> or \<open>None\<close>.
\<close>

definition np_full :: "nat list \<Rightarrow> 'a option \<Rightarrow> 'a option \<Rightarrow> error + 'a ndarray" where
  "np_full shp fill_value none_cast =
     (case fill_value of
        Some v \<Rightarrow> Inr \<lparr>shape = shp, flat = replicate (prod_list shp) v\<rparr>
      | None \<Rightarrow>
          (case none_cast of
             None \<Rightarrow> Inl TypeError
           | Some v \<Rightarrow> Inr \<lparr>shape = shp, flat = replicate (prod_list shp) v\<rparr>))"

subsection \<open>\<^verbatim>\<open>reindex_\<close>\<close>

text \<open>
  One entry of \<^verbatim>\<open>idx\<close>: the first position of \<open>label\<close> in \<^verbatim>\<open>from_\<close>, or \<open>-1\<close> when
  \<^verbatim>\<open>label in from_\<close> is false.
\<close>

definition reindex_position :: "'l option list \<Rightarrow> 'l option \<Rightarrow> int" where
  "reindex_position from_labels label =
     (if \<exists>f \<in> set from_labels. np_eq f label
      then int (length (takeWhile (\<lambda>f. \<not> np_eq f label) from_labels))
      else - 1)"

text \<open>
  \<open>reindex tuples none_cast array from_labels to_labels fill_value axis\<close> is the source's
  \<^verbatim>\<open>reindex_(array, from_, to, fill_value, axis)\<close>. \<open>fill_value = None\<close> is Python's
  \<^verbatim>\<open>None\<close>, the default. The parameter \<open>tuples\<close> stands for the dtype of the label
  arrays: \<open>None\<close> when it is not \<^verbatim>\<open>object\<close>, and for object arrays \<open>Some p\<close> with \<open>p l\<close>
  telling whether the label \<open>l\<close> is a Python tuple (NaN is none). For an object array the
  source reads \<^verbatim>\<open>from_[0]\<close>, which fails on an array without elements, and refuses
  tuples. For a target without labels \<^verbatim>\<open>idx = np.array([])\<close> is an array of floats, and
  numpy refuses to index with it. A fill value other than \<^verbatim>\<open>None\<close> is an element of the
  array's type; a fill value that the dtype of the array cannot hold (NaN for an array
  of integers) is not an input here.
\<close>

definition reindex ::
  "('l \<Rightarrow> bool) option \<Rightarrow> 'v option \<Rightarrow> 'v ndarray \<Rightarrow> 'l option list \<Rightarrow> 'l option list
     \<Rightarrow> 'v option \<Rightarrow> int \<Rightarrow> error + 'v ndarray"
where
  "reindex tuples none_cast array from_labels to_labels fill_value axis =
     (if axis \<noteq> 0 \<and> axis \<noteq> - 1 then Inl AssertionError
      else if length from_labels = length to_labels \<and> (\<forall>p \<in> set (zip from_labels to_labels). np_eq (fst p) (snd p))
      then Inr array
      else if shape array = [] then Inl IndexError
      else if (if axis = 0 then hd (shape array) else last (shape array)) = 0
      then np_full (butlast (shape array) @ [length to_labels]) fill_value none_cast
      else if tuples \<noteq> None \<and> from_labels = [] then Inl IndexError
      else if (case tuples of
                 None \<Rightarrow> False
               | Some p \<Rightarrow> (case hd from_labels of None \<Rightarrow> False | Some l \<Rightarrow> p l))
      then Inl NotImplementedError
      else if to_labels = [] then Inl IndexError
      else
        let idx = map (reindex_position from_labels) to_labels in
        bind_err (if axis = 0 then take_axis0 array idx else take_last array idx) (\<lambda>reindexed.
          if \<exists>i \<in> set idx. i = - 1 then
            (case fill_value of
               None \<Rightarrow> Inl (ValueError ''Filling is required. fill_value cannot be None.'')
             | Some v \<Rightarrow>
                 Inr (if axis = 0 then assign_axis0 reindexed (map (\<lambda>i. i = - 1) idx) v
                      else assign_last reindexed (map (\<lambda>i. i = - 1) idx) v))
          else Inr reindexed))"

subsection \<open>Python slices of a shape tuple\<close>

text \<open>
  \<^verbatim>\<open>t[:-m]\<close>, \<^verbatim>\<open>t[-m:]\<close> and \<^verbatim>\<open>t[:k]\<close> as Python computes them: \<^verbatim>\<open>-0\<close> is \<^verbatim>\<open>0\<close>, so
  \<^verbatim>\<open>t[:-0]\<close> is empty and \<^verbatim>\<open>t[-0:]\<close> is all of \<open>t\<close>; a negative \<open>k\<close> counts from the
  end.
\<close>

definition slice_butlast :: "'a list \<Rightarrow> nat \<Rightarrow> 'a list" where
  "slice_butlast t m = (if m = 0 then [] else take (length t - m) t)"

definition slice_last :: "'a list \<Rightarrow> nat \<Rightarrow> 'a list" where
  "slice_last t m = (if m = 0 then t else drop (length t - m) t)"

definition slice_upto :: "'a list \<Rightarrow> int \<Rightarrow> 'a list" where
  "slice_upto t k = (if 0 \<le> k then take (nat k) t else take (length t - nat (- k)) t)"

text \<open>\<^verbatim>\<open>_collapse_axis\<close>: the last \<open>naxis\<close> axes become one.\<close>

definition collapse_axis :: "'a ndarray \<Rightarrow> nat \<Rightarrow> error + 'a ndarray" where
  "collapse_axis arr naxis =
     np_reshape arr (slice_butlast (shape arr) naxis @ [prod_list (slice_last (shape arr) naxis)])"

subsection \<open>Label factorization: \<^verbatim>\<open>offset_labels\<close> and \<^verbatim>\<open>factorize_\<close>\<close>

text \<open>
  \<^verbatim>\<open>pd.factorize(values)\<close>: the distinct non-missing values in order of first
  appearance, and for every element the position of its value among them, or \<open>-1\<close> for
  a missing value.
\<close>

definition pd_uniques :: "'l option list \<Rightarrow> 'l list" where
  "pd_uniques xs = rev (remdups (rev (present xs)))"

definition pd_code :: "'l list \<Rightarrow> 'l option \<Rightarrow> int" where
  "pd_code uniques x =
     (case x of None \<Rightarrow> - 1 | Some v \<Rightarrow> int (length (takeWhile (\<lambda>u. u \<noteq> v) uniques)))"

definition pd_factorize :: "'l option list \<Rightarrow> int list \<times> 'l list" where
  "pd_factorize xs = (map (pd_code (pd_uniques xs)) xs, pd_uniques xs)"

text \<open>
  \<^verbatim>\<open>np.digitize(x, bins)\<close> (with \<^verbatim>\<open>right=False\<close>): for increasing bins the number of
  edges that are at most \<open>x\<close>, so that \<^verbatim>\<open>bins[i-1] <= x < bins[i]\<close>; for decreasing bins
  the number of edges greater than \<open>x\<close>. NaN sorts after every number: for increasing
  bins it is placed after the last edge, and for decreasing bins, which numpy reverses
  and searches (\<^verbatim>\<open>len(bins) - searchsorted(bins[::-1], x, side="right")\<close>), it gets 0.
  Edges that are not monotonic are refused.
\<close>

definition np_digitize :: "('l::linorder) option list \<Rightarrow> 'l list \<Rightarrow> error + int list" where
  "np_digitize xs bins =
     (if sorted bins then
        Inr (map (\<lambda>x. case x of None \<Rightarrow> int (length bins)
                         | Some v \<Rightarrow> int (length (filter (\<lambda>b. b \<le> v) bins))) xs)
      else if sorted (rev bins) then
        Inr (map (\<lambda>x. case x of None \<Rightarrow> 0
                         | Some v \<Rightarrow> int (length (filter (\<lambda>b. v < b) bins))) xs)
      else Inl (ValueError ''bins must be monotonically increasing or decreasing''))"

text \<open>\<^verbatim>\<open>a.max()\<close>, which raises on an array without elements.\<close>

definition np_max :: "int list \<Rightarrow> error + int" where
  "np_max xs =
     (if xs = [] then Inl (ValueError ''zero-size array to reduction operation maximum'')
      else Inr (Max (set xs)))"

text \<open>
  \<open>offset_labels\<close>: the labels of row \<open>r\<close> (one row per index of the leading axes) are
  moved into the range of group numbers \<open>r * ngroups .. (r + 1) * ngroups - 1\<close>; the
  marker \<open>-1\<close> stays.
\<close>

definition offset_labels :: "int ndarray \<Rightarrow> error + int ndarray \<times> nat \<times> nat" where
  "offset_labels labels =
     bind_err (np_max (flat labels)) (\<lambda>mx.
       let ngroups = nat (mx + 1);
           n = last (shape labels);
           offset = map (\<lambda>i. if flat labels ! i = - 1 then - 1
                               else flat labels ! i + int ((i div n) * ngroups))
                      [0..<length (flat labels)];
           size_all = prod_list (butlast (shape labels)) * ngroups
       in Inr (labels\<lparr>flat := offset\<rparr>, ngroups, size_all))"

text \<open>The \<^verbatim>\<open>axis\<close> argument: \<^verbatim>\<open>None\<close>, one integer, or a sequence of integers.\<close>

datatype axis_arg = AxisNone | AxisInt int | AxisSeq "int list"

definition is_scalar_axis :: "axis_arg \<Rightarrow> bool" where
  "is_scalar_axis ax = (case ax of AxisInt _ \<Rightarrow> True | _ \<Rightarrow> False)"

text \<open>
  \<^verbatim>\<open>np.ravel_multi_index(factorized, grp_shape)\<close> for several grouping arrays: the
  mixed-radix number of the codes of each element. A code outside its range (the \<open>-1\<close>
  of a missing value too) is refused.
\<close>

fun ravel_one :: "nat list \<Rightarrow> int list \<Rightarrow> error + int" where
  "ravel_one [] [] = Inr 0"
| "ravel_one (d # ds) (c # cs) =
     (if c < 0 \<or> int d \<le> c then Inl (ValueError ''invalid entry in coordinates array'')
      else bind_err (ravel_one ds cs) (\<lambda>r. Inr (c * int (prod_list ds) + r)))"
| "ravel_one _ _ = Inl (ValueError ''parameter multi_index must be a sequence of length of dims'')"

definition np_ravel_multi_index :: "int list list \<Rightarrow> nat list \<Rightarrow> error + int list" where
  "np_ravel_multi_index factorized dims =
     (if factorized = [] then Inr []
      else if \<exists>f \<in> set factorized. length f \<noteq> length (hd factorized)
      then Inl (ValueError ''shape mismatch'')
      else map_err (\<lambda>i. ravel_one dims (map (\<lambda>f. f ! i) factorized))
             [0..<length (hd factorized)])"

text \<open>
  What \<open>factorize\<close> (the source's \<^verbatim>\<open>factorize_\<close>) returns: the tuple
  \<^verbatim>\<open>(group_idx, found_groups, grp_shape, ngroups, size, props)\<close> with the two fields
  of \<^verbatim>\<open>props\<close>. \<open>size_opt\<close> is \<^verbatim>\<open>size\<close>, which is \<^verbatim>\<open>None\<close> outside offset mode.
\<close>

record 'l factorized =
  group_idx :: "int ndarray"
  found_groups :: "'l list list"
  grp_shape :: "nat list"
  ngroups :: nat
  size_opt :: "nat option"
  offset_group :: bool
  nan_sentinel :: int

text \<open>
  One grouping array in the loop of \<^verbatim>\<open>factorize_\<close>: its codes and its groups. When
  binning, the groups are the bin numbers \<^verbatim>\<open>np.arange(idx.max() + 1)\<close>; \<open>of_bin\<close>
  reads a bin number as a label, as numpy does when it compares integers with the
  labels. The codes of a binned array keep the shape of the array; \<^verbatim>\<open>pd.factorize\<close>
  works on the raveled array.
\<close>

definition factorize_one ::
  "(int \<Rightarrow> 'l) \<Rightarrow> ('l::linorder) option ndarray \<Rightarrow> 'l list option \<Rightarrow> bool
     \<Rightarrow> error + int ndarray \<times> 'l list"
where
  "factorize_one of_bin groupvar expect tobin =
     (if tobin then
        (case expect of
           None \<Rightarrow> Inl (ValueError ''Please pass bin_edges in expected_groups.'')
         | Some edges \<Rightarrow>
             bind_err (np_digitize (flat groupvar) edges) (\<lambda>d.
               let idx = map (\<lambda>i. i - 1) d in
               bind_err (np_max idx) (\<lambda>mx.
                 Inr (\<lparr>shape = shape groupvar, flat = idx\<rparr>,
                      map (\<lambda>k. of_bin (int k)) [0..<nat (mx + 1)]))))
      else
        (case pd_factorize (flat groupvar) of
           (idx, groups) \<Rightarrow> Inr (array1 idx, groups)))"

definition factorize ::
  "(int \<Rightarrow> 'l) \<Rightarrow> ('l::linorder) option ndarray list \<Rightarrow> axis_arg \<Rightarrow> 'l list option list option
     \<Rightarrow> bool list option \<Rightarrow> error + 'l factorized"
where
  "factorize of_bin by axis expected_groups_arg isbin_arg =
     (let isbin = (case isbin_arg of None \<Rightarrow> replicate (length by) False | Some b \<Rightarrow> b);
          expected_groups =
            (case expected_groups_arg of None \<Rightarrow> replicate (length by) None | Some e \<Rightarrow> e)
      in
      bind_err (map_err (\<lambda>(groupvar, expect, tobin). factorize_one of_bin groupvar expect tobin)
                  (zip by (zip expected_groups isbin))) (\<lambda>pairs.
        let factorized = map fst pairs;
            found = map snd pairs;
            gshape = map length found;
            ngroups0 = prod_list gshape
        in
        bind_err
          (if length by > 1 then
             bind_err (np_ravel_multi_index (map flat factorized) gshape) (\<lambda>r.
               np_reshape (array1 r) (shape (hd by)))
           else if factorized = [] then Inl IndexError
           else Inr (hd factorized)) (\<lambda>gidx0.
          bind_err
            (if is_scalar_axis axis \<and> ndim (by ! (length pairs - 1)) > 1 then
               bind_err (np_reshape gidx0 (shape (hd by))) (\<lambda>reshaped.
                 bind_err (offset_labels reshaped) (\<lambda>(off, ng, sz).
                   Inr (array1 (flat off), ng, Some sz, True)))
             else Inr (gidx0, ngroups0, None, False)) (\<lambda>(gidx1, ng, sz, off_group).
            let sentinel = (if off_group then int (the sz) + 1 else int ng + 1) in
            Inr \<lparr>group_idx = gidx1\<lparr>flat := map (\<lambda>g. if g = - 1 then sentinel else g) (flat gidx1)\<rparr>,
                 found_groups = found, grp_shape = gshape, ngroups = ng, size_opt = sz,
                 offset_group = off_group, nan_sentinel = sentinel\<rparr>))))"

subsection \<open>The chunk reducer: \<^verbatim>\<open>chunk_reduce\<close>\<close>

text \<open>
  A reduction is the name of a kernel of numpy\_groupies, or a callable that does the
  whole grouped aggregation itself. The kernels of the library are a table \<open>npg\<close> from
  names to kernels; a name that is not in the table is refused by the library.
\<close>

datatype ('a, 'b) reduction =
    Named string
  | Callable "int list \<Rightarrow> 'a ndarray \<Rightarrow> nat option \<Rightarrow> 'b \<Rightarrow> error + 'b ndarray"

text \<open>The dictionary \<^verbatim>\<open>{"groups": ..., "intermediates": [...]}\<close>.\<close>

record ('l, 'b) intermediate =
  groups :: "'l option ndarray"
  intermediates :: "'b ndarray list"

text \<open>\<^verbatim>\<open>np.argsort\<close>: the positions of the elements in ascending order of the elements.\<close>

definition np_argsort :: "('l::linorder) list \<Rightarrow> nat list" where
  "np_argsort xs = sort_key (\<lambda>i. xs ! i) [0..<length xs]"

text \<open>
  The body of the loop \<^verbatim>\<open>for reduction, fv, kw in zip(func, fill_value, kwargs)\<close> for
  a block that is not empty. \<open>any_missing\<close> is \<^verbatim>\<open>np.any(~mask)\<close> and \<open>use_expected\<close> is
  \<^verbatim>\<open>reindex and expected_groups is not None\<close>.
\<close>

definition reduce_one ::
  "(string \<Rightarrow> ((nat \<times> 'a) list \<Rightarrow> 'b) option) \<Rightarrow> ('l \<Rightarrow> bool) option
     \<Rightarrow> ('l::linorder) factorized \<Rightarrow> 'a ndarray
     \<Rightarrow> bool \<Rightarrow> bool \<Rightarrow> 'l list \<Rightarrow> 'l list \<Rightarrow> nat list \<Rightarrow> nat list
     \<Rightarrow> ('a, 'b) reduction \<Rightarrow> 'b \<Rightarrow> error + 'b ndarray"
where
  "reduce_one npg tuples f array any_missing use_expected grps expected sortidx
       final_array_shape reduction fv =
     bind_err
       (case reduction of
          Callable c \<Rightarrow> c (flat (group_idx f)) array (size_opt f) fv
        | Named name \<Rightarrow>
            (case npg name of
               None \<Rightarrow> Inl (ValueError ''func not found'')
             | Some krn \<Rightarrow>
                 npg_aggregate (flat (group_idx f)) array krn (size_opt f) fv)) (\<lambda>result.
     let result1 = (if any_missing then drop_last_slot result else result) in
     bind_err
       (if offset_group f then np_reshape result1 (butlast final_array_shape @ [ngroups f])
        else Inr result1) (\<lambda>result2.
     bind_err
       (if use_expected
        then reindex tuples None result2 (map Some grps) (map Some expected) (Some fv) (- 1)
        else take_last result2 (map int sortidx)) (\<lambda>result3.
     np_reshape result3 final_array_shape)))"

text \<open>
  The axis handling at the start of \<^verbatim>\<open>chunk_reduce\<close>: a sequence with one axis becomes
  that axis; when fewer axes are reduced than \<open>by\<close> has, the reduced axes of \<open>by\<close> and of
  \<open>array\<close> are collapsed into one and \<^verbatim>\<open>axis\<close> becomes \<open>-1\<close>; for a one-dimensional
  \<open>by\<close> it is \<open>-1\<close> as well.
\<close>

definition chunk_axes ::
  "'a ndarray \<Rightarrow> 'l ndarray \<Rightarrow> axis_arg \<Rightarrow> error + 'l ndarray \<times> 'a ndarray \<times> axis_arg"
where
  "chunk_axes array by axis =
     (let axis1 = (case axis of AxisSeq [a] \<Rightarrow> AxisInt a | _ \<Rightarrow> axis) in
      bind_err
        (case axis1 of
           AxisSeq s \<Rightarrow>
             if length s < ndim by then
               bind_err (collapse_axis by (length s)) (\<lambda>by'.
               bind_err (collapse_axis array (length s)) (\<lambda>array'.
               Inr (by', array', AxisInt (- 1))))
             else Inr (by, array, axis1)
         | _ \<Rightarrow> Inr (by, array, axis1)) (\<lambda>(by2, array2, axis2).
      Inr (by2, array2, if ndim by2 = 1 then AxisInt (- 1) else axis2)))"

text \<open>
  The loop \<^verbatim>\<open>for reduction, fv, kw in zip(func, fill_value, kwargs)\<close>: an empty block
  gives \<^verbatim>\<open>np.full(final_array_shape, fv)\<close> for every reduction.
\<close>

definition chunk_loop ::
  "(string \<Rightarrow> ((nat \<times> 'a) list \<Rightarrow> 'b) option) \<Rightarrow> ('l \<Rightarrow> bool) option
     \<Rightarrow> ('l::linorder) factorized \<Rightarrow> 'a ndarray
     \<Rightarrow> bool \<Rightarrow> bool \<Rightarrow> bool \<Rightarrow> 'l list \<Rightarrow> 'l list \<Rightarrow> nat list \<Rightarrow> nat list
     \<Rightarrow> ('a, 'b) reduction list \<Rightarrow> 'b list \<Rightarrow> error + 'b ndarray list"
where
  "chunk_loop npg tuples f array is_empty any_missing use_expected grps expected sortidx
       final_array_shape func fill_value =
     map_err (\<lambda>(reduction, fv).
         if is_empty then Inr \<lparr>shape = final_array_shape,
                             flat = replicate (prod_list final_array_shape) fv\<rparr>
         else reduce_one npg tuples f array any_missing use_expected grps expected sortidx
                final_array_shape reduction fv)
       (zip func fill_value)"

text \<open>
  \<open>chunk_reduce npg of_bin tuples array by func expected_groups axis fill_value
  reindex_flag isbin\<close>: \<open>func\<close> and \<open>fill_value\<close> are sequences already (the source wraps
  a single one), the keyword dictionaries \<^verbatim>\<open>kwargs\<close> belong to the kernels, and
  \<^verbatim>\<open>dtype\<close> and \<^verbatim>\<open>backend\<close> do not change what is computed. \<open>tuples\<close> describes the
  dtype of the labels in \<open>by\<close> (see \<open>reindex\<close>); the groups found by binning are bin
  numbers, never objects.
\<close>

definition chunk_reduce ::
  "(string \<Rightarrow> ((nat \<times> 'a) list \<Rightarrow> 'b) option) \<Rightarrow> (int \<Rightarrow> 'l) \<Rightarrow> ('l \<Rightarrow> bool) option
     \<Rightarrow> 'a ndarray \<Rightarrow> ('l::linorder) option ndarray \<Rightarrow> ('a, 'b) reduction list \<Rightarrow> 'l list option \<Rightarrow> axis_arg
     \<Rightarrow> 'b list \<Rightarrow> bool \<Rightarrow> bool \<Rightarrow> error + ('l, 'b) intermediate"
where
  "chunk_reduce npg of_bin tuples array by func expected_groups axis fill_value reindex_flag
       isbin =
     (let nax = (case axis of AxisSeq s \<Rightarrow> length s | _ \<Rightarrow> ndim by);
          final_array_shape0 = slice_butlast (shape array) nax @ replicate (nax - 1) 1;
          final_groups_shape0 = replicate (nax - 1) 1
      in
      bind_err (chunk_axes array by axis) (\<lambda>(by2, array2, axis3).
      bind_err (factorize of_bin [by2] axis3 (Some [expected_groups]) (Some [isbin])) (\<lambda>f.
      let grps = hd (found_groups f);
          newshape = slice_upto (shape array2) (int (ndim array2) - int (ndim by2))
                       @ [prod_list (slice_last (shape array2) (ndim by2))]
      in
      bind_err (np_reshape array2 newshape) (\<lambda>array3.
      if ndim (group_idx f) \<noteq> 1 then Inl AssertionError
      else
        let msk = map (\<lambda>g. g \<noteq> nan_sentinel f) (flat (group_idx f));
            is_empty = ((\<forall>m \<in> set msk. \<not> m) \<or> prod_list (shape by2) = 0);
            any_missing = (\<exists>m \<in> set msk. \<not> m);
            use_expected = (reindex_flag \<and> expected_groups \<noteq> None);
            expected = (case expected_groups of None \<Rightarrow> [] | Some e \<Rightarrow> e);
            sortidx = np_argsort grps;
            groups_out =
              (if use_expected then map Some expected
               else if is_empty then [None]
               else map (\<lambda>i. Some (grps ! i)) sortidx);
            final_array_shape = final_array_shape0 @ [length groups_out];
            final_groups_shape = final_groups_shape0 @ [length groups_out]
        in
        bind_err (chunk_loop npg (if isbin then None else tuples) f array3 is_empty any_missing
                    use_expected grps expected sortidx final_array_shape func fill_value)
          (\<lambda>inters.
        Inr \<lparr>groups = \<lparr>shape = final_groups_shape, flat = groups_out\<rparr>,
             intermediates = inters\<rparr>)))))"

text \<open>
  Kernels of numpy\_groupies used below: \<^verbatim>\<open>"sum"\<close> adds the members of a group, and
  \<^verbatim>\<open>"nanlen"\<close> counts the members that are not NaN (\<open>None\<close> in a float array). The sum
  is the sum of whole numbers; that a sum beyond the range of \<^verbatim>\<open>int64\<close> wraps around is
  not part of the kernel here.
\<close>

definition npg_sum :: "(nat \<times> int) list \<Rightarrow> int" where
  "npg_sum members = sum_list (map snd members)"

definition npg_nanlen :: "(nat \<times> 'a option) list \<Rightarrow> int" where
  "npg_nanlen members = int (length (filter (\<lambda>m. snd m \<noteq> None) members))"

subsection \<open>The finalizer: \<^verbatim>\<open>_squeeze_results\<close> and \<^verbatim>\<open>_finalize_results\<close>\<close>

text \<open>
  \<^verbatim>\<open>np.squeeze(a, axis=axes)\<close> for axes already known to have length 1: the axes
  disappear from the shape, the elements stay.
\<close>

definition np_squeeze :: "'a ndarray \<Rightarrow> nat list \<Rightarrow> 'a ndarray" where
  "np_squeeze a axes =
     a\<lparr>shape := map (\<lambda>k. shape a ! k) (filter (\<lambda>k. k \<notin> set axes) [0..<ndim a])\<rparr>"

definition squeeze_results :: "('l, 'b) intermediate \<Rightarrow> nat list \<Rightarrow> error + ('l, 'b) intermediate" where
  "squeeze_results results axis =
     (let g = groups results;
          g' = np_squeeze g (filter (\<lambda>ax. shape g ! ax = 1) [0..<ndim g - 1])
      in
      bind_err
        (map_err (\<lambda>v.
             if \<exists>ax \<in> set (butlast (sort axis)). ndim v \<le> ax then Inl IndexError
             else Inr (np_squeeze v (filter (\<lambda>ax. shape v ! ax = 1) (butlast (sort axis)))))
           (intermediates results)) (\<lambda>vs.
        Inr \<lparr>groups = g', intermediates = vs\<rparr>))"

text \<open>
  Modelled from the spec: the immutable \<^verbatim>\<open>Aggregation\<close> descriptor of
  \<^verbatim>\<open>aggregations.py\<close>, which is not among the sources: its name, the ordered chunk
  kernels, the ordered combine kernels, the optional finalize function, the fill values
  per stage (the \<^verbatim>\<open>"intermediate"\<close> tuple and the final one) and the reduction type
  (\<^verbatim>\<open>"reduce"\<close> or \<^verbatim>\<open>"argreduce"\<close>). Fill values are the ones already resolved against
  the element type.
\<close>

record ('a, 'b) aggregation =
  agg_name :: string
  chunk :: "('a, 'b) reduction list"
  combine :: "('b, 'b) reduction list"
  finalize :: "('b ndarray list \<Rightarrow> error + 'b ndarray) option"
  fill_intermediate :: "'b list"
  fill_final :: "'b option"
  reduction_type :: string

text \<open>
  What the element types of the arrays provide. \<open>npg_table\<close> is the kernel table of
  numpy\_groupies and \<open>agg_catalog\<close> is \<^verbatim>\<open>getattr(aggregations, name)\<close>. \<open>bin_label\<close> reads a bin
  number as a label. \<open>none_value\<close> is what \<^verbatim>\<open>None\<close> becomes in a result array (see
  \<open>np_full\<close>), \<open>nan_value\<close> is \<^verbatim>\<open>np.nan\<close> and \<open>zero_value\<close> is \<open>0\<close> there; \<open>count_of\<close> reads
  an element of an array of counts or positions as an integer and \<open>index_value\<close> writes
  one. \<open>inexact\<close> says that the input array's \<^verbatim>\<open>dtype.kind\<close> is one of \<^verbatim>\<open>"cfO"\<close>.
  \<open>label_tuples\<close> describes the dtype of the labels, as \<open>reindex\<close> needs it.
\<close>

record ('a, 'b, 'l) env =
  npg_table :: "string \<Rightarrow> ((nat \<times> 'a) list \<Rightarrow> 'b) option"
  agg_catalog :: "string \<Rightarrow> ('a, 'b) aggregation option"
  bin_label :: "int \<Rightarrow> 'l"
  none_value :: "'b option"
  nan_value :: 'b
  zero_value :: 'b
  count_of :: "'b \<Rightarrow> int"
  index_value :: "int \<Rightarrow> 'b"
  inexact :: bool
  label_tuples :: "('l \<Rightarrow> bool) option"

text \<open>
  \<^verbatim>\<open>np.where(counts >= min_count, result, fill_value)\<close> for arrays of one shape, with a
  fill value of the element type. \<open>cast_fill\<close> is the conversion of a fill value that may
  be \<^verbatim>\<open>None\<close> to the element type, as \<open>np_full\<close> does it. (With the fill value \<^verbatim>\<open>None\<close>,
  \<^verbatim>\<open>np.where\<close> itself would give an array of objects that holds \<^verbatim>\<open>None\<close>; arrays of
  objects are not among the result types here, so that the finalizer has no result for
  a \<^verbatim>\<open>min_count\<close> with the fill value \<^verbatim>\<open>None\<close> unless the element type has a value for it.)
\<close>

definition cast_fill :: "'b option \<Rightarrow> 'b option \<Rightarrow> error + 'b" where
  "cast_fill nc fill_value =
     (case fill_value of
        Some v \<Rightarrow> Inr v
      | None \<Rightarrow> (case nc of None \<Rightarrow> Inl TypeError | Some v \<Rightarrow> Inr v))"

definition np_where_counts ::
  "('b \<Rightarrow> int) \<Rightarrow> 'b ndarray \<Rightarrow> int \<Rightarrow> 'b ndarray \<Rightarrow> 'b \<Rightarrow> error + 'b ndarray"
where
  "np_where_counts cnt counts min_count result fv =
     (if shape counts \<noteq> shape result
      then Inl (ValueError ''operands could not be broadcast together'')
      else Inr (result\<lparr>flat := map (\<lambda>(c, r). if min_count \<le> cnt c then r else fv)
                                   (zip (flat counts) (flat result))\<rparr>))"

text \<open>
  What \<open>finalize_results\<close> returns: the dictionary with the array under the name of the
  aggregation and, only when \<^verbatim>\<open>expected_groups\<close> was given, the groups.
\<close>

record ('l, 'b) final_result =
  final_value :: "'b ndarray"
  final_groups :: "'l list option"

definition finalize_results ::
  "('a, 'b, 'l) env \<Rightarrow> ('l, 'b) intermediate \<Rightarrow> ('a, 'b) aggregation \<Rightarrow> nat list
     \<Rightarrow> 'l list option \<Rightarrow> 'b option \<Rightarrow> int option \<Rightarrow> error + ('l, 'b) final_result"
where
  "finalize_results e results agg axis expected_groups fill_value min_count =
     bind_err (squeeze_results results axis) (\<lambda>squeezed.
     bind_err
       (case finalize agg of
          None \<Rightarrow>
            (case min_count of
               None \<Rightarrow>
                 (case intermediates squeezed of [] \<Rightarrow> Inl IndexError | r # _ \<Rightarrow> Inr r)
             | Some mc \<Rightarrow>
                 (case intermediates squeezed of
                    [] \<Rightarrow> Inl IndexError
                  | [_] \<Rightarrow> Inl IndexError
                  | r # rest \<Rightarrow>
                      bind_err (cast_fill (none_value e) fill_value) (\<lambda>fv.
                        np_where_counts (count_of e) (last rest) mc r fv)))
        | Some fin \<Rightarrow>
            (case fill_value of
               None \<Rightarrow>
                 bind_err (fin (intermediates squeezed)) (\<lambda>r. Inl UnboundLocalError)
             | Some fv \<Rightarrow>
                 (case intermediates squeezed of
                    [] \<Rightarrow> Inl IndexError
                  | _ \<Rightarrow>
                      bind_err (fin (butlast (intermediates squeezed))) (\<lambda>r.
                        np_where_counts (count_of e) (last (intermediates squeezed))
                          (case min_count of None \<Rightarrow> 1 | Some mc \<Rightarrow> mc) r fv)))) (\<lambda>result.
     case expected_groups of
       None \<Rightarrow> Inr \<lparr>final_value = result, final_groups = None\<rparr>
     | Some expected \<Rightarrow>
         bind_err (reindex (label_tuples e) (none_value e) result (flat (groups squeezed))
                     (map Some expected) fill_value (- 1)) (\<lambda>r.
           Inr \<lparr>final_value = r, final_groups = Some expected\<rparr>)))"

subsection \<open>The entry point on numpy arrays: \<^verbatim>\<open>groupby_reduce\<close>\<close>

text \<open>\<^verbatim>\<open>"nan" in func\<close> on strings.\<close>

definition has_nan :: "string \<Rightarrow> bool" where
  "has_nan s = (\<exists>i \<in> set [0..<length s]. take 3 (drop i s) = ''nan'')"

text \<open>
  \<^verbatim>\<open>normalize_axis_tuple(axis, ndim)\<close>: negative axes count from the end; an axis out
  of range and a repeated axis are refused.
\<close>

definition normalize_axis_tuple :: "int list \<Rightarrow> nat \<Rightarrow> error + nat list" where
  "normalize_axis_tuple axis n =
     (if \<exists>ax \<in> set axis. \<not> index_ok n ax then Inl (ValueError ''axis is out of bounds'')
      else if \<not> distinct (map (resolve_index n) axis) then Inl (ValueError ''repeated axis'')
      else Inr (map (resolve_index n) axis))"

text \<open>
  \<^verbatim>\<open>arr.transpose(order)\<close>: axis \<open>k\<close> of the result is axis \<open>order[k]\<close> of \<open>arr\<close>.
  \<open>unravel\<close> and \<open>ravel_nat\<close> pass between a flat position and the indices per axis.
\<close>

fun unravel :: "nat list \<Rightarrow> nat \<Rightarrow> nat list" where
  "unravel [] p = []"
| "unravel (d # ds) p = (p div prod_list ds) # unravel ds (p mod prod_list ds)"

fun ravel_nat :: "nat list \<Rightarrow> nat list \<Rightarrow> nat" where
  "ravel_nat (d # ds) (i # is) = i * prod_list ds + ravel_nat ds is"
| "ravel_nat _ _ = 0"

definition np_transpose :: "'a ndarray \<Rightarrow> int list \<Rightarrow> error + 'a ndarray" where
  "np_transpose arr order =
     (let n = ndim arr; ord = map (resolve_index n) order in
      if length order \<noteq> n \<or> (\<exists>ax \<in> set order. \<not> index_ok n ax) \<or> \<not> distinct ord
      then Inl (ValueError ''axes do not match array'')
      else
        let newshape = map (\<lambda>k. shape arr ! k) ord in
        Inr \<lparr>shape = newshape,
             flat = map (\<lambda>p. let m = unravel newshape p;
                                  old = map (\<lambda>d. m ! length (takeWhile (\<lambda>k. k \<noteq> d) ord)) [0..<n]
                              in flat arr ! ravel_nat (shape arr) old)
                      [0..<prod_list newshape]\<rparr>)"

definition move_reduce_dims_to_end :: "'a ndarray \<Rightarrow> int list \<Rightarrow> error + 'a ndarray" where
  "move_reduce_dims_to_end arr axis =
     np_transpose arr (filter (\<lambda>ax. ax \<notin> set axis) (map int [0..<ndim arr]) @ axis)"

text \<open>
  \<open>groupby_reduce e array by func expected_groups isbin axis fill_value skipna
  min_count\<close> for numpy arrays \<open>array\<close> and \<open>by\<close> (the branch
  \<^verbatim>\<open>not is_duck_dask_array(array) and not is_duck_dask_array(by)\<close>) and a reduction given
  by name. The result is the pair \<^verbatim>\<open>(result, groups)\<close>.
\<close>

definition groupby_reduce ::
  "('a, 'b, 'l::linorder) env \<Rightarrow> 'a ndarray \<Rightarrow> 'l option ndarray \<Rightarrow> string \<Rightarrow> 'l list option
     \<Rightarrow> bool \<Rightarrow> int list option \<Rightarrow> 'b option \<Rightarrow> bool option \<Rightarrow> int option
     \<Rightarrow> error + 'b ndarray \<times> 'l list"
where
  "groupby_reduce e array by func expected_groups isbin axis fill_value skipna min_count =
     (if slice_last (shape array) (ndim by) \<noteq> shape by
      then Inl (ValueError ''array and by must be aligned'')
      else if skipna = Some True \<and> func \<in> {''all'', ''any'', ''count''}
      then Inl (ValueError ''skipna cannot be truthy for this reduction.'')
      else
        let func1 =
              (if (skipna = Some True \<or> (skipna = None \<and> inexact e))
                  \<and> \<not> has_nan func \<and> func \<notin> {''all'', ''any'', ''count''}
               then ''nan'' @ func else func)
        in
        if (case min_count of None \<Rightarrow> False | Some mc \<Rightarrow> 1 < mc)
           \<and> func1 \<notin> {''nansum'', ''nanprod''}
        then Inl (ValueError ''min_count can be > 1 only for nansum, nanprod.'')
        else
          bind_err
            (case axis of
               None \<Rightarrow> Inr (map (\<lambda>k. ndim array - ndim by + k) [0..<ndim by])
             | Some ax \<Rightarrow> normalize_axis_tuple ax (ndim array)) (\<lambda>axis1.
          let expected1 =
                (case expected_groups of
                   None \<Rightarrow> np_unique (present (flat by))
                 | Some eg \<Rightarrow> eg)
          in
          bind_err
            (if length axis1 < ndim by then
               bind_err (move_reduce_dims_to_end by
                           (map (\<lambda>ax. int ax - int (ndim array) + int (ndim by)) axis1)) (\<lambda>by'.
               bind_err (move_reduce_dims_to_end array (map int axis1)) (\<lambda>array'.
               Inr (by', array',
                    map (\<lambda>k. ndim array' - length axis1 + k) [0..<length axis1])))
             else Inr (by, array, axis1)) (\<lambda>(by2, array2, axis2).
          case agg_catalog e func1 of
            None \<Rightarrow> Inl NotImplementedError
          | Some reduction \<Rightarrow>
              let fill1 = (case fill_value of None \<Rightarrow> fill_final reduction | Some v \<Rightarrow> Some v) in
              if min_count \<noteq> None \<and> func1 \<notin> {''nansum'', ''nanprod''} then Inl AssertionError
              else
                let fill2 = (if min_count \<noteq> None then Some (nan_value e) else fill1);
                    name = agg_name reduction;
                    func2 = (if name \<noteq> ''count'' then name else ''nanlen'');
                    append_nanlen = (min_count \<noteq> None \<or> name \<in> {''nanvar'', ''nanstd''})
                in
                bind_err (cast_fill (none_value e) fill2) (\<lambda>fv.
                bind_err
                  (chunk_reduce (npg_table e) (bin_label e) (label_tuples e) array2 by2
                     (if append_nanlen then [Named func2, Named ''nanlen''] else [Named func2])
                     (if isbin then Some expected1 else None)
                     (AxisSeq (map int axis2))
                     (if append_nanlen then [fv, zero_value e] else [fv])
                     False isbin) (\<lambda>results.
                bind_err
                  (if name \<in> {''argmin'', ''argmax'', ''nanargmax'', ''nanargmin''} then
                     (if 1 < ndim array2 \<and> ndim by2 = 1 then
                        (case intermediates results of
                           [] \<Rightarrow> Inl IndexError
                         | r # rest \<Rightarrow>
                             if \<exists>v \<in> set (flat r). count_of e v < 0
                                  \<or> int (prod_list (shape array2)) \<le> count_of e v
                             then Inl (ValueError ''index is out of bounds for array'')
                             else Inr (results\<lparr>intermediates :=
                                    r\<lparr>flat := map (\<lambda>v. index_value e
                                                  (count_of e v mod int (last (shape array2))))
                                               (flat r)\<rparr> # rest\<rparr>))
                      else Inr results)
                   else if name \<in> {''nanvar'', ''nanstd''} then
                     (case intermediates results of
                        [val, counts] \<Rightarrow>
                          Inr (results\<lparr>intermediates :=
                                 [val\<lparr>flat := map (\<lambda>(v, c). if count_of e c \<le> 0 then nan_value e
                                                              else v)
                                                (zip (flat val) (flat counts))\<rparr>]\<rparr>)
                      | _ \<Rightarrow> Inl (ValueError ''not enough or too many values to unpack''))
                   else Inr results) (\<lambda>results1.
                let expected2 =
                      (if isbin then map (\<lambda>k. bin_label e (int k)) [0..<length expected1 - 1]
                       else expected1)
                in
                bind_err (finalize_results
                            (if isbin then e\<lparr>label_tuples := None\<rparr> else e) results1
                            (reduction\<lparr>finalize := None\<rparr>) axis2
                            (Some expected2) fill2 min_count) (\<lambda>result.
                Inr (final_value result, expected2))))))))"

subsection \<open>The aggregations and inputs of the scenarios\<close>

text \<open>
  Modelled from the spec: the catalog entries of \<^verbatim>\<open>aggregations.py\<close> (not among the
  sources) for \<^verbatim>\<open>"sum"\<close> and \<^verbatim>\<open>"count"\<close>. A sum is computed per block by the kernel
  \<^verbatim>\<open>"sum"\<close>, a count by the kernel \<^verbatim>\<open>"nanlen"\<close>; block results of both are combined
  with \<^verbatim>\<open>"sum"\<close>; neither has a finalize step; a group without elements is 0 at every
  stage.
\<close>

definition sum_aggregation :: "(int, int) aggregation" where
  "sum_aggregation =
     \<lparr>agg_name = ''sum'', chunk = [Named ''sum''], combine = [Named ''sum''], finalize = None,
      fill_intermediate = [0], fill_final = Some 0, reduction_type = ''reduce''\<rparr>"

definition count_aggregation :: "(real option, int) aggregation" where
  "count_aggregation =
     \<lparr>agg_name = ''count'', chunk = [Named ''nanlen''], combine = [Named ''sum''],
      finalize = None, fill_intermediate = [0], fill_final = Some 0,
      reduction_type = ''reduce''\<rparr>"

text \<open>
  Integer arrays grouped by strings (which are never binned, so no bin number is ever
  read as a label), and float arrays, whose elements are \<open>Some x\<close> or \<open>None\<close> for NaN,
  grouped by floats and counted. Results are integers in both; the conversion of
  \<^verbatim>\<open>None\<close> to an integer raises, and NaN, which no integer array holds, is not needed
  by a reduction without \<^verbatim>\<open>min_count\<close>. The groups that \<^verbatim>\<open>pd.factorize\<close> finds among
  strings are an object array, and no string is a tuple.
\<close>

definition no_kernel :: "string \<Rightarrow> ((nat \<times> 'a) list \<Rightarrow> 'b) option" where
  "no_kernel name = None"

definition no_aggregation :: "string \<Rightarrow> ('a, 'b) aggregation option" where
  "no_aggregation name = None"

definition no_bin_label :: "int \<Rightarrow> string" where
  "no_bin_label k = []"

definition int_by_string_env :: "(int, int, string) env" where
  "int_by_string_env =
     \<lparr>npg_table = no_kernel(''sum'' := Some npg_sum),
      agg_catalog = no_aggregation(''sum'' := Some sum_aggregation),
      bin_label = no_bin_label, none_value = None, nan_value = 0, zero_value = 0,
      count_of = id, index_value = id, inexact = False, label_tuples = Some (\<lambda>l. False)\<rparr>"

definition float_count_env :: "(real option, int, real) env" where
  "float_count_env =
     \<lparr>npg_table = no_kernel(''nanlen'' := Some npg_nanlen),
      agg_catalog = no_aggregation(''count'' := Some count_aggregation),
      bin_label = of_int, none_value = None, nan_value = 0, zero_value = 0,
      count_of = id, index_value = id, inexact = True, label_tuples = None\<rparr>"

definition scenario_labels :: "string list" where
  "scenario_labels =
     [''a'', ''a'', ''c'', ''c'', ''c'', ''b'', ''b'', ''c'', ''c'', ''b'', ''b'', ''f'']"

subsection \<open>Labels marked missing\<close>

text \<open>
  The labels to which \<^verbatim>\<open>factorize_\<close> gives the code \<open>-1\<close> before it substitutes the
  sentinel: NaN when the labels are factorized by \<^verbatim>\<open>pd.factorize\<close>; when binning, a
  value that \<^verbatim>\<open>np.digitize\<close> places before the first bin.
\<close>

definition marked_missing :: "bool \<Rightarrow> ('l::linorder) list option \<Rightarrow> 'l option \<Rightarrow> bool" where
  "marked_missing isbin expected_groups label =
     (if isbin then
        (case expected_groups of
           None \<Rightarrow> False
         | Some edges \<Rightarrow> np_digitize [label] edges = Inr [0])
      else label = None)"

subsection \<open>The cohort analyzer\<close>


lemma map_err_Inr_iff:
  "map_err f xs = Inr ys \<longleftrightarrow> length ys = length xs \<and> (\<forall>i < length xs. f (xs ! i) = Inr (ys ! i))"
proof (induction xs arbitrary: ys)
  case Nil
  then show ?case by auto
next
  case (Cons x xs)
  show ?case
  proof (cases "f x")
    case (Inl e)
    then show ?thesis by (auto simp: bind_err_def)
  next
    case (Inr y)
    show ?thesis
    proof (cases "map_err f xs")
      case (Inl e)
      with Cons.IH have "\<And>zs. \<not> (length zs = length xs \<and> (\<forall>i < length xs. f (xs ! i) = Inr (zs ! i)))"
        by auto
      then have "\<not> (length ys = length (x # xs) \<and> (\<forall>i < length (x # xs). f ((x # xs) ! i) = Inr (ys ! i)))"
        by (cases ys) (auto simp: nth_Cons split: nat.splits)
      then show ?thesis using Inl Inr by (simp add: bind_err_def)
    next
      case (Inr zs)
      with Cons.IH [of zs] have zs: "length zs = length xs" "\<forall>i < length xs. f (xs ! i) = Inr (zs ! i)"
        by auto
      have "map_err f (x # xs) = Inr (y # zs)" using \<open>f x = Inr y\<close> Inr by (simp add: bind_err_def)
      moreover have "(y # zs = ys) \<longleftrightarrow>
          (length ys = length (x # xs) \<and> (\<forall>i < length (x # xs). f ((x # xs) ! i) = Inr (ys ! i)))"
      proof
        assume "y # zs = ys"
        then show "length ys = length (x # xs) \<and> (\<forall>i < length (x # xs). f ((x # xs) ! i) = Inr (ys ! i))"
          using zs \<open>f x = Inr y\<close> by (auto simp: nth_Cons split: nat.splits)
      next
        assume a: "length ys = length (x # xs) \<and> (\<forall>i < length (x # xs). f ((x # xs) ! i) = Inr (ys ! i))"
        then obtain y' ys' where ys: "ys = y' # ys'" by (cases ys) auto
        from a ys have "f x = Inr y'" by auto
        with \<open>f x = Inr y\<close> have "y' = y" by simp
        from a ys have "length ys' = length xs" "\<forall>i < length xs. f (xs ! i) = Inr (ys' ! i)" by auto
        with Cons.IH [of ys'] Inr have "ys' = zs" by simp
        with ys \<open>y' = y\<close> show "y # zs = ys" by simp
      qed
      ultimately show ?thesis by auto
    qed
  qed
qed

lemma groupby_add_mset:
  "mset (concat (map snd (groupby_add k x d))) = add_mset x (mset (concat (map snd d)))"
  by (induction d) auto

lemma groupby_fold_mset:
  "mset (concat (map snd (fold (\<lambda>x d. groupby_add (key x) x d) seq d))) =
     mset seq + mset (concat (map snd d))"
  by (induction seq arbitrary: d) (auto simp: groupby_add_mset)

lemma tlz_groupby_mset: "mset (concat (map snd (tlz_groupby key seq))) = mset seq"
  by (simp add: tlz_groupby_def groupby_fold_mset)

lemma set_present: "Some ` set (present xs) = set xs - {None}"
  by (force simp: present_def)

lemma np_unique_nan_set: "set (np_unique_nan xs) = set xs"
  using set_present [of xs] by (auto simp: np_unique_nan_def np_unique_def)

lemma np_unique_nan_distinct: "distinct (np_unique_nan xs)"
  by (auto simp: np_unique_nan_def np_unique_def distinct_map)

lemma distinct_concat_disjoint:
  assumes "distinct (concat xss)" "i < j" "j < length xss"
  shows "set (xss ! i) \<inter> set (xss ! j) = {}"
proof -
  have "xss = take j xss @ xss ! j # drop (Suc j) xss"
    using assms(3) by (rule id_take_nth_drop)
  then have "concat xss = concat (take j xss) @ xss ! j @ concat (drop (Suc j) xss)"
    by (metis concat.simps(2) concat_append)
  with assms(1) have "set (concat (take j xss)) \<inter> set (xss ! j) = {}"
    by (metis distinct_append inf_sup_distrib1 set_append sup_eq_bot_iff)
  moreover have "xss ! i \<in> set (take j xss)"
    using assms(2,3) by (metis in_set_conv_nth length_take min.absorb2 nth_take less_imp_le_nat)
  ultimately show ?thesis by auto
qed

lemma length_np_repeat_arange: "length (np_repeat_arange chunks) = sum_list chunks"
proof -
  have "map (\<lambda>i. chunks ! i) [0..<length chunks] = chunks" by (rule map_nth)
  then show ?thesis
    by (simp add: np_repeat_arange_def length_concat o_def)
qed

lemma find_group_cohorts_Inr:
  assumes "find_group_cohorts labels chunks False = Inr cohorts"
  shows "mset (concat cohorts) = mset (np_unique_nan labels)"
proof -
  define f where "f = (\<lambda>lab. bind_err (np_mask_select (np_repeat_arange chunks) (map (\<lambda>l. np_eq l lab) labels))
                          (\<lambda>sel. Inr (lab, np_unique sel)))"
  from assms obtain lc where lc: "map_err f (np_unique_nan labels) = Inr lc"
    and co: "cohorts = map snd (tlz_groupby (map_of lc) (map fst lc))"
    by (auto simp: find_group_cohorts_def Let_def bind_err_def f_def split: sum.splits)
  from lc have len: "length lc = length (np_unique_nan labels)"
    and each: "\<forall>i < length (np_unique_nan labels). f (np_unique_nan labels ! i) = Inr (lc ! i)"
    by (simp_all add: map_err_Inr_iff)
  have "map fst lc = np_unique_nan labels"
  proof (rule nth_equalityI)
    show "length (map fst lc) = length (np_unique_nan labels)" using len by simp
  next
    fix i assume "i < length (map fst lc)"
    then have i: "i < length (np_unique_nan labels)" using len by simp
    with each have "f (np_unique_nan labels ! i) = Inr (lc ! i)" by simp
    then have "fst (lc ! i) = np_unique_nan labels ! i"
      by (auto simp: f_def bind_err_def split: sum.splits) (metis fst_conv)
    then show "map fst lc ! i = np_unique_nan labels ! i" using i len by simp
  qed
  with co show ?thesis by (simp add: tlz_groupby_mset)
qed

lemma find_group_cohorts_total:
  assumes "length labels = sum_list chunks"
  shows "\<exists>cohorts. find_group_cohorts labels chunks False = Inr cohorts"
proof -
  define f where "f = (\<lambda>lab. bind_err (np_mask_select (np_repeat_arange chunks) (map (\<lambda>l. np_eq l lab) labels))
                          (\<lambda>sel. Inr (lab, np_unique sel)))"
  have "\<And>lab. \<exists>y. f lab = Inr y"
    using assms by (simp add: f_def np_mask_select_def length_np_repeat_arange bind_err_def)
  then obtain g where g: "\<And>lab. f lab = Inr (g lab)" by metis
  have "map_err f (np_unique_nan labels) = Inr (map g (np_unique_nan labels))"
    by (simp add: map_err_Inr_iff g)
  then have "find_group_cohorts labels chunks False =
      Inr (map snd (tlz_groupby (map_of (map g (np_unique_nan labels)))
             (map fst (map g (np_unique_nan labels)))))"
    unfolding find_group_cohorts_def Let_def f_def [symmetric] by (simp add: bind_err_def)
  then show ?thesis by blast
qed

text \<open>
  Claim C8. With \<^verbatim>\<open>merge=False\<close>, whatever the labels and the block sizes, the cohorts
  that \<open>find_group_cohorts\<close> returns are pairwise disjoint and their union is the set of
  the labels that occur in the input. It returns cohorts whenever there is one label
  per element of the chunked axis (with labels that do not fit the axis, numpy's boolean
  indexing raises).
\<close>

theorem cohorts_partition_groups:
  "(\<forall>cohorts. find_group_cohorts labels chunks False = Inr cohorts \<longrightarrow>
      (\<forall>i j. i < j \<and> j < length cohorts \<longrightarrow> set (cohorts ! i) \<inter> set (cohorts ! j) = {}) \<and>
      \<Union> (set ` set cohorts) = set labels) \<and>
   (length labels = sum_list chunks \<longrightarrow>
      (\<exists>cohorts. find_group_cohorts labels chunks False = Inr cohorts))"
proof (intro conjI allI impI)
  fix cohorts i j
  assume c: "find_group_cohorts labels chunks False = Inr cohorts" and ij: "i < j \<and> j < length cohorts"
  from find_group_cohorts_Inr [OF c] have "distinct (concat cohorts)"
    using np_unique_nan_distinct [of labels] by (metis mset_eq_imp_distinct_iff)
  with ij show "set (cohorts ! i) \<inter> set (cohorts ! j) = {}"
    by (simp add: distinct_concat_disjoint)
next
  fix cohorts
  assume c: "find_group_cohorts labels chunks False = Inr cohorts"
  from find_group_cohorts_Inr [OF c] have "set (concat cohorts) = set (np_unique_nan labels)"
    by (rule mset_eq_setD)
  then show "\<Union> (set ` set cohorts) = set labels"
    by (simp add: np_unique_nan_set)
next
  assume "length labels = sum_list chunks"
  then show "\<exists>cohorts. find_group_cohorts labels chunks False = Inr cohorts"
    by (rule find_group_cohorts_total)
qed

theorem cohorts_partition_groups_witness:
  "length (map Some [1, 2, 3, 1, 2, 3, 4, 1, 2, 3 :: int]) = sum_list [4, 4, 2] \<and>
   (\<exists>cohorts. find_group_cohorts (map Some [1, 2, 3, 1, 2, 3, 4, 1, 2, 3 :: int]) [4, 4, 2] False
        = Inr cohorts \<and>
      length cohorts = 3 \<and>
      set (cohorts ! 0) \<inter> set (cohorts ! 1) = {} \<and>
      set (cohorts ! 1) \<inter> set (cohorts ! 2) = {} \<and>
      \<Union> (set ` set cohorts) = set (map Some [1, 2, 3, 1, 2, 3, 4, 1, 2, 3 :: int]))"
proof -
  let ?L = "map Some [1, 2, 3, 1, 2, 3, 4, 1, 2, 3 :: int]"
  let ?cs = "[[Some 1], [Some 2, Some 3], [Some (4 :: int)]]"
  have ev: "find_group_cohorts ?L [4, 4, 2] False = Inr ?cs"
    by code_simp
  from cohorts_partition_groups [of ?L "[4, 4, 2]"] ev
  have d: "\<forall>i j. i < j \<and> j < length ?cs \<longrightarrow> set (?cs ! i) \<inter> set (?cs ! j) = {}"
    and u: "\<Union> (set ` set ?cs) = set ?L"
    by blast+
  from d have "set (?cs ! 0) \<inter> set (?cs ! 1) = {}" "set (?cs ! 1) \<inter> set (?cs ! 2) = {}"
    by simp_all
  with ev u show ?thesis by simp
qed

subsection \<open>Label factorization\<close>




lemma factorize_codes_form:
  assumes "factorize of_bin by axis expected_groups isbin = Inr f"
  shows "\<forall>g \<in> set (flat (group_idx f)). g = nan_sentinel f \<or> g \<noteq> - 1"
  using assms
  by (auto simp: factorize_def bind_err_def Let_def simp del: of_nat_mult
      split: sum.splits prod.splits if_splits)

section \<open>Properties\<close>

subsection \<open>The rechunk planners\<close>

lemma sum_list_np_diff: "xs \<noteq> [] \<Longrightarrow> sum_list (np_diff xs) = last xs - hd xs"
  by (induction xs rule: np_diff.induct) auto

lemma cohorts_step_cases:
  "cohorts_step labels force cs ob isb idx (d, c) = (d @ [int idx], 1) \<or>
   cohorts_step labels force cs ob isb idx (d, c) = (d, c + 1)"
  by (simp add: cohorts_step_def Let_def)

lemma cohorts_fold_hd:
  "d \<noteq> [] \<Longrightarrow>
   fst (fold (cohorts_step labels force cs ob isb) is (d, c)) \<noteq> [] \<and>
   hd (fst (fold (cohorts_step labels force cs ob isb) is (d, c))) = hd d"
proof (induction "is" arbitrary: d c)
  case Nil
  then show ?case by simp
next
  case (Cons i "is")
  from cohorts_step_cases [of labels force cs ob isb i d c]
  show ?case
  proof
    assume "cohorts_step labels force cs ob isb i (d, c) = (d @ [int i], 1)"
    with Cons.IH [of "d @ [int i]" 1] Cons.prems show ?thesis by simp
  next
    assume "cohorts_step labels force cs ob isb i (d, c) = (d, c + 1)"
    with Cons.IH [of d "c + 1"] Cons.prems show ?thesis by simp
  qed
qed

text \<open>Index 0 is an old block boundary, so the first iteration always opens a block.\<close>

lemma cohorts_step_zero:
  "0 \<in> set ob \<Longrightarrow> cohorts_step labels force cs ob isb 0 ([], c) = ([0], 1)"
  by (simp add: cohorts_step_def Let_def)

lemma cohorts_divisions_hd:
  assumes "labels \<noteq> []" "0 \<in> set ob"
  shows "cohorts_divisions labels force cs ob isb \<noteq> [] \<and>
         hd (cohorts_divisions labels force cs ob isb) = 0"
proof -
  have "[0..<length labels] = 0 # [1..<length labels]"
    using assms(1) by (simp add: upt_conv_Cons)
  then have "cohorts_divisions labels force cs ob isb =
    fst (fold (cohorts_step labels force cs ob isb) [1..<length labels] ([0], 1))"
    by (simp add: cohorts_divisions_def cohorts_step_zero [OF assms(2)])
  with cohorts_fold_hd [of "[0]" labels force cs ob isb "[1..<length labels]" 1]
  show ?thesis by simp
qed

lemma rechunk_for_cohorts_total:
  assumes "length labels = sum_list oldchunks" "\<exists>l \<in> set labels. l \<in> set force"
  shows "\<exists>new. rechunk_for_cohorts oldchunks labels force cs = Inr new \<and>
               sum_list new = int (sum_list oldchunks)"
proof -
  from assms(2) have ne: "labels \<noteq> []" by auto
  define chunksize where "chunksize = (case cs of None \<Rightarrow> np_median_int oldchunks | Some c \<Rightarrow> c)"
  define ob where "ob = 0 # np_cumsum (map int oldchunks)"
  define isb where "isb = map (\<lambda>lab. lab \<in> set force) labels"
  define ds where "ds = cohorts_divisions labels force chunksize ob isb"
  have "0 \<in> set ob" by (simp add: ob_def)
  from cohorts_divisions_hd [OF ne this] have ds: "ds \<noteq> []" "hd ds = 0"
    by (simp_all add: ds_def)
  have "sum_list (np_diff (ds @ [int (length labels)])) = int (length labels)"
    using ds by (simp add: sum_list_np_diff)
  moreover have "\<exists>b \<in> set isb. b" using assms(2) by (auto simp: isb_def)
  ultimately show ?thesis
    using assms(1)
    by (simp add: rechunk_for_cohorts_def Let_def chunksize_def [symmetric] ob_def [symmetric]
        isb_def [symmetric] ds_def [symmetric])
qed

lemma np_getitem_ok:
  "- int (length xs) \<le> i \<Longrightarrow> i < int (length xs) \<Longrightarrow>
   \<exists>v. np_getitem xs i = Inr v \<and> v \<in> set xs"
  by (auto simp: np_getitem_def Let_def)

lemma np_take_ok:
  "\<forall>i \<in> set is. - int (length xs) \<le> i \<and> i < int (length xs) \<Longrightarrow>
   \<exists>vs. np_take xs is = Inr vs \<and> set vs \<subseteq> set xs \<and> length vs = length is"
proof (induction "is")
  case Nil
  then show ?case by simp
next
  case (Cons i "is")
  then obtain vs where vs: "np_take xs is = Inr vs" "set vs \<subseteq> set xs" "length vs = length is"
    by auto
  from Cons.prems obtain v where v: "np_getitem xs i = Inr v" "v \<in> set xs"
    using np_getitem_ok [of xs i] by auto
  show ?case using v vs by (simp add: bind_err_def)
qed

lemma cumsum_from_bounds:
  "\<forall>x \<in> set xs. 0 \<le> x \<Longrightarrow> c \<in> set (cumsum_from acc xs) \<Longrightarrow>
   acc \<le> c \<and> c \<le> acc + sum_list xs"
proof (induction xs arbitrary: acc)
  case Nil
  then show ?case by simp
next
  case (Cons x xs)
  have nn: "0 \<le> sum_list xs" using Cons.prems(1) by (simp add: sum_list_nonneg)
  from Cons.prems(2) have "c = acc + x \<or> c \<in> set (cumsum_from (acc + x) xs)" by simp
  then show ?case
  proof
    assume "c = acc + x"
    then show ?thesis using Cons.prems(1) nn by simp
  next
    assume "c \<in> set (cumsum_from (acc + x) xs)"
    with Cons.IH [of "acc + x"] Cons.prems(1) show ?thesis by auto
  qed
qed

lemma cumsum_from_Nil_iff: "cumsum_from acc xs = [] \<longleftrightarrow> xs = []"
  by (cases xs) auto

lemma cumsum_from_last:
  "xs \<noteq> [] \<Longrightarrow> last (cumsum_from acc xs) = acc + sum_list xs"
  by (induction xs arbitrary: acc) (auto simp: add.assoc cumsum_from_Nil_iff)

lemma cumsum_from_length: "length (cumsum_from acc xs) = length xs"
  by (induction xs arbitrary: acc) auto

lemma optimal_fold_hd:
  "d \<noteq> [] \<Longrightarrow> fold optimal_step zs d \<noteq> [] \<and> hd (fold optimal_step zs d) = hd d"
proof (induction zs arbitrary: d)
  case Nil
  then show ?case by simp
next
  case (Cons z zs)
  obtain c f l where z: "z = (c, f, l)" by (cases z) auto
  have "optimal_step z d = d \<or> (\<exists>x. optimal_step z d = d @ [x])"
    by (simp add: z optimal_step_def Let_def)
  then show ?case
  proof
    assume "optimal_step z d = d"
    with Cons show ?thesis by simp
  next
    assume "\<exists>x. optimal_step z d = d @ [x]"
    then obtain x where "optimal_step z d = d @ [x]" ..
    with Cons.IH [of "d @ [x]"] Cons.prems show ?thesis by simp
  qed
qed

lemma npg_aggregate_arange_ok:
  assumes "labels \<noteq> []" "\<forall>l \<in> set labels. 0 \<le> l"
  shows "\<exists>r. npg_aggregate labels (array1 (map int [0..<length labels])) func None fv = Inr r \<and>
             length (flat r) = nat (Max (set labels)) + 1"
proof -
  have "\<not> (\<exists>g \<in> set labels. g > int (nat (Max (set labels)) + 1) - 1)"
  proof
    assume "\<exists>g \<in> set labels. g > int (nat (Max (set labels)) + 1) - 1"
    then obtain g where g: "g \<in> set labels" "g > int (nat (Max (set labels)) + 1) - 1" ..
    have le: "g \<le> Max (set labels)" using g(1) by simp
    have "0 \<le> g" using g(1) assms(2) by auto
    with le have "int (nat (Max (set labels)) + 1) - 1 = Max (set labels)" by simp
    with le g(2) show False by linarith
  qed
  moreover have "\<not> (\<exists>g \<in> set labels. g < 0)" using assms(2) by auto
  ultimately show ?thesis
    using assms(1) by (simp add: npg_aggregate_def array1_def Let_def length_concat o_def sum_list_triv)
qed

lemma get_optimal_chunks_total:
  assumes len: "length labels = sum_list chunks" and ne: "labels \<noteq> []"
      and nonneg: "\<forall>l \<in> set labels. 0 \<le> l"
  shows "\<exists>new. get_optimal_chunks_for_groups chunks labels = Inr new \<and>
               sum_list new = int (sum_list chunks)"
proof -
  define chunkidx where "chunkidx = map (\<lambda>c. c - 1) (np_cumsum (map int chunks))"
  define arange where "arange = array1 (map int [0..<length labels])"
  have cne: "chunks \<noteq> []" using len ne by auto
  have n_pos: "0 < length labels" using ne by simp
  have sum_int: "sum_list (map int chunks) = int (sum_list chunks)"
    by (induction chunks) auto
  have idx_ok: "\<forall>i \<in> set chunkidx. - int (length labels) \<le> i \<and> i < int (length labels)"
  proof
    fix i assume "i \<in> set chunkidx"
    then obtain c where c: "c \<in> set (cumsum_from 0 (map int chunks))" "i = c - 1"
      by (auto simp: chunkidx_def np_cumsum_def)
    from cumsum_from_bounds [of "map int chunks" c 0] c(1)
    have "0 \<le> c \<and> c \<le> int (sum_list chunks)" by (auto simp: sum_int)
    with c(2) len n_pos show "- int (length labels) \<le> i \<and> i < int (length labels)" by auto
  qed
  from np_take_ok [OF idx_ok] obtain at_bounds where
    ab: "np_take labels chunkidx = Inr at_bounds" "set at_bounds \<subseteq> set labels" by auto
  define lacb where "lacb = np_unique at_bounds"
  have lacb_sub: "set lacb \<subseteq> set labels" using ab(2) by (simp add: lacb_def np_unique_def)
  from npg_aggregate_arange_ok [OF ne nonneg, of npg_last 0] obtain last_indexes where
    li: "npg_aggregate labels arange npg_last None 0 = Inr last_indexes"
        "length (flat last_indexes) = nat (Max (set labels)) + 1"
    by (auto simp: arange_def)
  from npg_aggregate_arange_ok [OF ne nonneg, of npg_first 0] obtain first_indexes where
    fi: "npg_aggregate labels arange npg_first None 0 = Inr first_indexes"
        "length (flat first_indexes) = nat (Max (set labels)) + 1"
    by (auto simp: arange_def)
  have lacb_ok: "\<forall>i \<in> set lacb. - int (nat (Max (set labels)) + 1) \<le> i
                    \<and> i < int (nat (Max (set labels)) + 1)"
  proof
    fix i assume "i \<in> set lacb"
    with lacb_sub have i: "i \<in> set labels" by auto
    then have "i \<le> Max (set labels)" by simp
    moreover have "0 \<le> i" using i nonneg by auto
    ultimately show "- int (nat (Max (set labels)) + 1) \<le> i \<and> i < int (nat (Max (set labels)) + 1)"
      by auto
  qed
  from np_take_ok [of lacb "flat last_indexes"] lacb_ok li(2) obtain lastidx where
    lx: "np_take (flat last_indexes) lacb = Inr lastidx" by auto
  from np_take_ok [of lacb "flat first_indexes"] lacb_ok fi(2) obtain firstidx where
    fx: "np_take (flat first_indexes) lacb = Inr firstidx" by auto
  define looped where "looped = fold optimal_step (zip chunkidx (zip firstidx lastidx)) [0]"
  have lp: "looped \<noteq> []" "hd looped = 0"
    using optimal_fold_hd [of "[0]" "zip chunkidx (zip firstidx lastidx)"]
    by (simp_all add: looped_def)
  define newchunkidx where "newchunkidx =
    (if last looped \<noteq> last chunkidx + 1 then looped @ [last chunkidx + 1] else looped)"
  have cidx_ne: "chunkidx \<noteq> []"
    using cne by (simp add: chunkidx_def np_cumsum_def cumsum_from_Nil_iff)
  have last_cidx: "last chunkidx + 1 = int (sum_list chunks)"
  proof -
    have "cumsum_from 0 (map int chunks) \<noteq> []"
      using cne by (simp add: cumsum_from_Nil_iff)
    then have "last chunkidx = last (cumsum_from 0 (map int chunks)) - 1"
      by (simp add: chunkidx_def np_cumsum_def last_map)
    with cumsum_from_last [of "map int chunks" 0] cne show ?thesis by (simp add: sum_int)
  qed
  have nci: "newchunkidx \<noteq> []" "hd newchunkidx = 0" "last newchunkidx = int (sum_list chunks)"
    using lp last_cidx by (auto simp: newchunkidx_def)
  have sum_ok: "sum_list (np_diff newchunkidx) = int (sum_list chunks)"
    using nci by (simp add: sum_list_np_diff)
  have sum_ok': "(last looped \<noteq> last chunkidx + 1 \<longrightarrow>
        sum_list (np_diff (looped @ [last chunkidx + 1])) = int (sum_list chunks)) \<and>
      (last looped = last chunkidx + 1 \<longrightarrow> sum_list (np_diff looped) = int (sum_list chunks))"
    using sum_ok by (auto simp: newchunkidx_def split: if_splits)
  show ?thesis
  proof (cases "length chunkidx = length lastidx \<and> chunkidx = lastidx")
    case True
    then show ?thesis
      using ab(1) li(1) lx
      by (simp add: get_optimal_chunks_for_groups_def Let_def bind_err_def
          chunkidx_def [symmetric] arange_def [symmetric] lacb_def [symmetric] sum_int)
  next
    case False
    then show ?thesis
      using ab(1) li(1) lx fi(1) fx cidx_ne sum_ok'
      by (simp add: get_optimal_chunks_for_groups_def Let_def bind_err_def
          chunkidx_def [symmetric] arange_def [symmetric] lacb_def [symmetric] sum_int
          looped_def [symmetric])
  qed
qed

text \<open>
  Claim C9. Both rechunk planners return block sizes that sum to the length of the axis.
  For \<open>rechunk_for_cohorts\<close> the preconditions are the ones the function checks: one
  label per element of the axis, and a forcing label that occurs. For
  \<open>get_optimal_chunks_for_groups\<close> they are what its caller establishes: one
  non-negative group code per element of a non-empty axis. Under them each planner
  returns (neither its assertion nor an index fails) and the sizes returned sum to the
  sum of the old block sizes.
\<close>

theorem rechunk_planners_conserve_axis_length:
  "(length labels = sum_list oldchunks \<and> (\<exists>l \<in> set labels. l \<in> set force) \<longrightarrow>
      (\<exists>new. rechunk_for_cohorts oldchunks labels force chunksize = Inr new \<and>
             sum_list new = int (sum_list oldchunks))) \<and>
   (length codes = sum_list chunks \<and> codes \<noteq> [] \<and> (\<forall>c \<in> set codes. 0 \<le> c) \<longrightarrow>
      (\<exists>new. get_optimal_chunks_for_groups chunks codes = Inr new \<and>
             sum_list new = int (sum_list chunks)))"
  using rechunk_for_cohorts_total [of labels oldchunks force chunksize]
        get_optimal_chunks_total [of codes chunks]
  by blast

theorem rechunk_planners_conserve_axis_length_witness:
  "(\<exists>new. rechunk_for_cohorts [4, 4, 2] [1, 2, 3, 1, 2, 3, 4, 1, 2, 3 :: int] [1] None = Inr new \<and>
          sum_list new = 10) \<and>
   (\<exists>new. get_optimal_chunks_for_groups [1, 1, 1, 1, 1, 1, 1, 1, 1, 1]
            [1, 1, 1, 2, 2, 3, 3, 5, 5, 5] = Inr new \<and> sum_list new = 10)"
  using rechunk_planners_conserve_axis_length
    [of "[1, 2, 3, 1, 2, 3, 4, 1, 2, 3 :: int]" "[4, 4, 2]" "[1]" None
        "[1, 1, 1, 2, 2, 3, 3, 5, 5, 5]" "[1, 1, 1, 1, 1, 1, 1, 1, 1, 1]"]
  by simp

text \<open>
  Claim C10. When no label of \<open>force_new_chunk_at\<close> occurs in \<open>labels\<close>,
  \<open>rechunk_for_cohorts\<close> raises \<^verbatim>\<open>ValueError\<close>: the one of the length check when the
  labels do not fit the axis, otherwise the one of the missing forcing label. Both come
  before the loop that computes the divisions, and no block sizes are returned.
\<close>

theorem rechunk_for_cohorts_raises_without_forcing_label:
  assumes "set force \<inter> set labels = {}"
  shows "rechunk_for_cohorts oldchunks labels force chunksize =
     Inl (ValueError (if length labels \<noteq> sum_list oldchunks
                      then ''labels must be equal to array.shape[axis].''
                      else ''One or more labels in force_new_chunk_at not present in labels.''))"
  using assms by (auto simp: rechunk_for_cohorts_def Let_def)

theorem rechunk_for_cohorts_raises_without_forcing_label_witness:
  "set [7] \<inter> set [1, 2, 3, 1, 2, 3, 4, 1, 2, 3 :: int] = {} \<and>
   rechunk_for_cohorts [4, 4, 2] [1, 2, 3, 1, 2, 3, 4, 1, 2, 3 :: int] [7] None =
     Inl (ValueError ''One or more labels in force_new_chunk_at not present in labels.'')"
  using rechunk_for_cohorts_raises_without_forcing_label
    [of "[7]" "[1, 2, 3, 1, 2, 3, 4, 1, 2, 3 :: int]" "[4, 4, 2]" None]
  by simp

subsection \<open>Reindexing\<close>

lemma zip_same_np_eq:
  "None \<notin> set g \<Longrightarrow> \<forall>p \<in> set (zip g g). np_eq (fst p) (snd p)"
  by (auto simp: np_eq_def zip_same_conv_map) (metis not_None_eq)

lemma reindex_position_range:
  "- 1 \<le> reindex_position f l \<and> reindex_position f l < int (length f)"
proof (cases "\<exists>x \<in> set f. np_eq x l")
  case True
  then have "takeWhile (\<lambda>x. \<not> np_eq x l) f \<noteq> f"
    by auto
  then have "length (takeWhile (\<lambda>x. \<not> np_eq x l) f) \<noteq> length f"
    by (metis takeWhile_eq_take take_all order_refl)
  with length_takeWhile_le [of "\<lambda>x. \<not> np_eq x l" f]
  have "length (takeWhile (\<lambda>x. \<not> np_eq x l) f) < length f"
    by linarith
  with True show ?thesis by (simp add: reindex_position_def)
next
  case False
  then show ?thesis by (simp add: reindex_position_def)
qed

lemma reindex_position_neg_iff:
  "l \<noteq> None \<Longrightarrow> reindex_position f l = - 1 \<longleftrightarrow> l \<notin> set f"
  by (auto simp: reindex_position_def np_eq_def)

lemma reindex_take_ok:
  assumes "shape a \<noteq> []" "(if axis = 0 then hd (shape a) else last (shape a)) = length f" "f \<noteq> []"
  shows "\<exists>r. (if axis = 0 then take_axis0 a (map (reindex_position f) t)
               else take_last a (map (reindex_position f) t)) = Inr r"
proof -
  have pos: "0 < int (length f)" using assms(3) by simp
  have ok: "\<forall>i \<in> set (map (reindex_position f) t). index_ok (length f) i"
  proof
    fix i assume "i \<in> set (map (reindex_position f) t)"
    then obtain l where "i = reindex_position f l" by auto
    with reindex_position_range [of f l] pos show "index_ok (length f) i"
      unfolding index_ok_def by linarith
  qed
  show ?thesis
  proof (cases "axis = 0")
    case True
    with ok assms(1,2) show ?thesis by (simp add: take_axis0_def Let_def)
  next
    case False
    with ok assms(1,2) show ?thesis by (simp add: take_last_def Let_def)
  qed
qed


lemma reindex_shortcut:
  assumes "axis = 0 \<or> axis = - 1" "length f = length t"
    "\<forall>p \<in> set (zip f t). np_eq (fst p) (snd p)"
  shows "reindex tuples none_cast a f t fv axis = Inr a"
  using assms unfolding reindex_def by simp

lemma reindex_main:
  assumes ax: "axis = 0 \<or> axis = - 1"
    and ns: "\<not> (length f = length t \<and> (\<forall>p \<in> set (zip f t). np_eq (fst p) (snd p)))"
    and sh: "shape a \<noteq> []"
    and nz: "(if axis = 0 then hd (shape a) else last (shape a)) \<noteq> 0"
    and r: "(if axis = 0 then take_axis0 a (map (reindex_position f) t)
             else take_last a (map (reindex_position f) t)) = Inr r"
    and fne: "f \<noteq> []"
    and ntup: "\<not> (case tuples of None \<Rightarrow> False
                    | Some p \<Rightarrow> (case hd f of None \<Rightarrow> False | Some l \<Rightarrow> p l))"
    and tne: "t \<noteq> []"
  shows "reindex tuples none_cast a f t fv axis =
      (if \<exists>i \<in> set (map (reindex_position f) t). i = - 1 then
            (case fv of
               None \<Rightarrow> Inl (ValueError ''Filling is required. fill_value cannot be None.'')
             | Some v \<Rightarrow>
                 Inr (if axis = 0 then assign_axis0 r (map (\<lambda>i. i = - 1) (map (reindex_position f) t)) v
                      else assign_last r (map (\<lambda>i. i = - 1) (map (reindex_position f) t)) v))
          else Inr r)"
proof -
  define P where "P = (length f = length t \<and> (\<forall>p \<in> set (zip f t). np_eq (fst p) (snd p)))"
  define idx where "idx = map (reindex_position f) t"
  define T where "T = (case tuples of None \<Rightarrow> False
                    | Some p \<Rightarrow> (case hd f of None \<Rightarrow> False | Some l \<Rightarrow> p l))"
  have np: "\<not> P" using ns by (simp add: P_def)
  have nT: "\<not> T" using ntup by (simp add: T_def)
  show ?thesis
  proof (cases "axis = 0")
    case True
    with nz r have "hd (shape a) \<noteq> 0" "take_axis0 a idx = Inr r" by (simp_all add: idx_def)
    with True np nT fne tne sh show ?thesis
      unfolding reindex_def Let_def P_def [symmetric] idx_def [symmetric] T_def [symmetric]
      by (simp add: bind_err_def)
  next
    case False
    with nz r ax have "last (shape a) \<noteq> 0" "take_last a idx = Inr r" "axis = - 1"
      by (simp_all add: idx_def)
    with np nT fne tne sh show ?thesis
      unfolding reindex_def Let_def P_def [symmetric] idx_def [symmetric] T_def [symmetric]
      by (simp add: bind_err_def)
  qed
qed

lemma zip_np_eq_imp_eq:
  "length f = length t \<Longrightarrow> (\<forall>p \<in> set (zip f t). np_eq (fst p) (snd p)) \<longrightarrow> f = t"
  by (induction f t rule: list_induct2) (auto simp: np_eq_def)


text \<open>
  Claim C6, as the code has it. Reindexing an array onto the group set that already
  labels it returns the array unchanged, whatever the fill value (also \<^verbatim>\<open>None\<close>),
  provided no label of the group set is NaN: the shortcut of \<open>reindex\<close> compares the
  two label arrays element by element, and NaN is not equal to itself.
\<close>

theorem reindex_onto_own_groups_is_noop:
  assumes "None \<notin> set g" "axis = 0 \<or> axis = - 1"
  shows "reindex tuples none_cast r g g fill_value axis = Inr r"
  using assms zip_same_np_eq [of g] by (auto simp: reindex_def)


theorem reindex_onto_own_groups_is_noop_witness:
  "None \<notin> set [Some (0::int), Some 1] \<and>
   reindex None None (array1 [3, 2 :: int]) [Some (0::int), Some 1] [Some 0, Some 1] None (- 1) =
     Inr (array1 [3, 2])"
  using reindex_onto_own_groups_is_noop
    [where g = "[Some (0::int), Some 1]" and axis = "- 1" and tuples = None and none_cast = None
       and r = "array1 [3, 2 :: int]" and fill_value = None]
  by simp


text \<open>
  With the group set \<^verbatim>\<open>[nan]\<close> (the group set \<open>chunk_reduce\<close> gives a block without
  any valid label) the shortcut is not taken: the NaN label is not found in the source,
  and its slot is overwritten with the fill value.
\<close>

theorem reindex_nan_group_counterexample:
  "reindex None None (array1 [5 :: int]) [None :: int option] [None] (Some 0) (- 1) = Inr (array1 [0]) \<and>
   array1 [0] \<noteq> array1 [5 :: int]"
  by (simp add: reindex_def np_eq_def take_last_def array1_def bind_err_def reindex_position_def
      index_ok_def resolve_index_def assign_last_def Let_def)


text \<open>
  Claim C7, as the code has it. For a source with at least one group along the axis
  (the axis of the array that the source labels describe), whose labels are not tuples
  in an object array, and a target with at least one label, none of which is NaN,
  \<open>reindex\<close> raises exactly when some target group is absent from the source and the
  fill value is \<^verbatim>\<open>None\<close>; the exception is the \<^verbatim>\<open>ValueError\<close> of the filling step. In
  particular the call succeeds with \<^verbatim>\<open>fill_value=None\<close> when every target group is in
  the source. (A target without labels makes numpy refuse the index array, whatever
  the fill value, and tuples are refused with \<^verbatim>\<open>NotImplementedError\<close>; neither is part
  of this statement.)
\<close>

theorem reindex_raises_iff_filling_required:
  assumes ax: "axis = 0 \<or> axis = - 1"
      and sh: "shape array \<noteq> []"
      and len: "(if axis = 0 then hd (shape array) else last (shape array)) = length from_labels"
      and ne: "from_labels \<noteq> []"
      and ntup: "\<not> (case tuples of None \<Rightarrow> False
                      | Some p \<Rightarrow> (case hd from_labels of None \<Rightarrow> False | Some l \<Rightarrow> p l))"
      and tne: "to_labels \<noteq> []"
      and nonan: "None \<notin> set to_labels"
  shows "reindex tuples none_cast array from_labels to_labels fill_value axis = Inl e \<longleftrightarrow>
           e = ValueError ''Filling is required. fill_value cannot be None.'' \<and>
           \<not> set to_labels \<subseteq> set from_labels \<and> fill_value = None"
proof (cases "length from_labels = length to_labels \<and>
              (\<forall>p \<in> set (zip from_labels to_labels). np_eq (fst p) (snd p))")
  case True
  then have eq: "from_labels = to_labels" by (simp add: zip_np_eq_imp_eq)
  from True ax have "reindex tuples none_cast array from_labels to_labels fill_value axis = Inr array"
    by (intro reindex_shortcut) simp_all
  with eq show ?thesis by simp
next
  case False
  define idx where "idx = map (reindex_position from_labels) to_labels"
  from reindex_take_ok [OF sh len ne, of to_labels] obtain r where
    r: "(if axis = 0 then take_axis0 array idx else take_last array idx) = Inr r"
    unfolding idx_def by blast
  have miss: "(\<exists>i \<in> set idx. i = - 1) \<longleftrightarrow> \<not> set to_labels \<subseteq> set from_labels"
  proof -
    have "\<And>l. l \<in> set to_labels \<Longrightarrow>
        (reindex_position from_labels l = - 1 \<longleftrightarrow> l \<notin> set from_labels)"
    proof -
      fix l assume "l \<in> set to_labels"
      with nonan have "l \<noteq> None" by metis
      then show "reindex_position from_labels l = - 1 \<longleftrightarrow> l \<notin> set from_labels"
        by (rule reindex_position_neg_iff)
    qed
    then have "(\<exists>l \<in> set to_labels. reindex_position from_labels l = - 1) \<longleftrightarrow>
        (\<exists>l \<in> set to_labels. l \<notin> set from_labels)" by blast
    moreover have "(\<exists>i \<in> set idx. i = - 1) \<longleftrightarrow>
        (\<exists>l \<in> set to_labels. reindex_position from_labels l = - 1)"
      unfolding idx_def by (simp add: image_iff) metis
    moreover have "(\<exists>l \<in> set to_labels. l \<notin> set from_labels) \<longleftrightarrow>
        \<not> set to_labels \<subseteq> set from_labels" by blast
    ultimately show ?thesis by simp
  qed
  have nz: "(if axis = 0 then hd (shape array) else last (shape array)) \<noteq> 0"
    using len ne by simp
  have main: "reindex tuples none_cast array from_labels to_labels fill_value axis =
      (if \<exists>i \<in> set idx. i = - 1 then
            (case fill_value of
               None \<Rightarrow> Inl (ValueError ''Filling is required. fill_value cannot be None.'')
             | Some v \<Rightarrow>
                 Inr (if axis = 0 then assign_axis0 r (map (\<lambda>i. i = - 1) idx) v
                      else assign_last r (map (\<lambda>i. i = - 1) idx) v))
          else Inr r)"
    unfolding idx_def using ax False sh nz r [unfolded idx_def] ne ntup tne
    by (rule reindex_main)
  show ?thesis
  proof (cases "\<exists>i \<in> set idx. i = - 1")
    case True
    then have m: "\<not> set to_labels \<subseteq> set from_labels" using miss by simp
    show ?thesis
    proof (cases fill_value)
      case None
      with main True have "reindex tuples none_cast array from_labels to_labels fill_value axis =
          Inl (ValueError ''Filling is required. fill_value cannot be None.'')" by simp
      with m None show ?thesis by auto
    next
      case (Some v)
      with main True have "\<exists>x. reindex tuples none_cast array from_labels to_labels fill_value axis = Inr x"
        by simp
      with Some show ?thesis by auto
    qed
  next
    case False
    then have m: "set to_labels \<subseteq> set from_labels" using miss by simp
    from main False have "reindex tuples none_cast array from_labels to_labels fill_value axis = Inr r"
      by simp
    with m show ?thesis by simp
  qed
qed

theorem reindex_raises_iff_filling_required_witness:
  "shape (array1 [3, 2 :: int]) \<noteq> [] \<and>
   last (shape (array1 [3, 2 :: int])) = length [Some (0::int), Some 1] \<and>
   None \<notin> set [Some (0::int), Some 1, Some 2] \<and>
   \<not> set [Some (0::int), Some 1, Some 2] \<subseteq> set [Some 0, Some 1] \<and>
   reindex None None (array1 [3, 2 :: int]) [Some (0::int), Some 1] [Some 0, Some 1, Some 2] None (- 1)
     = Inl (ValueError ''Filling is required. fill_value cannot be None.'')"
  using reindex_raises_iff_filling_required
    [where axis = "- 1" and array = "array1 [3, 2 :: int]"
       and from_labels = "[Some (0::int), Some 1]" and to_labels = "[Some 0, Some 1, Some 2]"
       and none_cast = None and fill_value = None and tuples = None
       and e = "ValueError ''Filling is required. fill_value cannot be None.''"]
  by (simp add: array1_def)


text \<open>
  A NaN target label is never found in the source, even when the source holds NaN too:
  every target group is in the source group set, and the call still raises.
\<close>

theorem reindex_nan_target_counterexample:
  "set [None :: int option] \<subseteq> set [None] \<and>
   reindex None None (array1 [5 :: int]) [None :: int option] [None] None (- 1) =
     Inl (ValueError ''Filling is required. fill_value cannot be None.'')"
  by (simp add: reindex_def np_eq_def take_last_def array1_def bind_err_def reindex_position_def
      index_ok_def resolve_index_def Let_def)

subsection \<open>Scenarios on numpy arrays\<close>

text \<open>
  Claim C2. Twelve values, all 1, with the labels
  \<^verbatim>\<open>["a","a","c","c","c","b","b","c","c","b","b","f"]\<close>, reduced with \<^verbatim>\<open>"sum"\<close> and no
  \<^verbatim>\<open>min_count\<close> (nor any other option): the groups are \<^verbatim>\<open>["a","b","c","f"]\<close> and their
  sums are 2, 4, 5 and 1.
\<close>

theorem groupby_reduce_sum_scenario:
  "groupby_reduce int_by_string_env (array1 (replicate 12 1)) (array1 (map Some scenario_labels))
       ''sum'' None False None None None None =
     Inr (array1 [2, 4, 5, 1], [''a'', ''b'', ''c'', ''f''])"
  by code_simp

text \<open>
  Claim C5. The values \<^verbatim>\<open>[1, 1.5, 1.9, 2, 3]\<close> binned by the edges \<^verbatim>\<open>[1, 2, 4, 5]\<close>
  (\<^verbatim>\<open>isbin=True\<close>) and counted with \<^verbatim>\<open>fill_value=0\<close>: the counts of the three intervals
  are \<^verbatim>\<open>[3, 2, 0]\<close>. Each value is in the interval, closed on the left and open on the
  right, that contains it: 1, 1.5 and 1.9 in the first, 2 and 3 in the second. The array
  that is counted holds five ones.
\<close>

theorem groupby_reduce_bins_scenario:
  "groupby_reduce float_count_env (array1 (map Some [1, 1, 1, 1, 1]))
       (array1 (map Some [1, 3 / 2, 19 / 10, 2, 3])) ''count'' (Some [1, 2, 4, 5]) True None
       (Some 0) None None =
     Inr (array1 [3, 2, 0], [0, 1, 2])"
  by code_simp

text \<open>The twelve ones are all counted: the group sums of the first scenario add up to 12,
  and the interval counts of the second to 5.\<close>

theorem groupby_reduce_sum_scenario_witness:
  "(case groupby_reduce int_by_string_env (array1 (replicate 12 1))
           (array1 (map Some scenario_labels)) ''sum'' None False None None None None of
      Inl err \<Rightarrow> False
    | Inr res \<Rightarrow> sum_list (flat (fst res)) = 12 \<and> length (snd res) = 4)"
  using groupby_reduce_sum_scenario by (simp add: array1_def)

theorem groupby_reduce_bins_scenario_witness:
  "(case groupby_reduce float_count_env (array1 (map Some [1, 1, 1, 1, 1]))
       (array1 (map Some [1, 3 / 2, 19 / 10, 2, 3])) ''count'' (Some [1, 2, 4, 5]) True None
       (Some 0) None None of
      Inl err \<Rightarrow> False
    | Inr res \<Rightarrow> sum_list (flat (fst res)) = 5 \<and> length (snd res) = 3)"
  using groupby_reduce_bins_scenario by (simp add: array1_def)

subsection \<open>The chunk reducer and missing labels\<close>






































text \<open>
  Binning with decreasing edges \<open>4, 2, 1\<close>: NaN and the value 5 beyond the first edge
  get no bin, and their elements are in no sum.
\<close>

lemma chunk_reduce_decreasing_edges_example:
  "chunk_reduce (\<lambda>name. if name = ''sum'' then Some npg_sum else None) (\<lambda>i. i) None
       (array1 [10, 20, 30, 40 :: int]) (array1 [Some 3, None, Some 1, Some (5 :: int)])
       [Named ''sum''] (Some [4, 2, 1]) (AxisSeq [0]) [0 :: int] False True =
     Inr \<lparr>groups = array1 [Some 0, Some 1], intermediates = [array1 [10, 30]]\<rparr> \<and>
   marked_missing True (Some [4, 2, 1 :: int]) None \<and>
   marked_missing True (Some [4, 2, 1 :: int]) (Some 5)"
  by code_simp

subsection \<open>The sentinel of \<^verbatim>\<open>factorize_\<close>\<close>














end
